theory Spec2Isabelle
  imports Main "HOL-Library.Char_ord" "HOL-Library.List_Lexorder" "HOL-Library.Multiset"
begin

section \<open>Excel to SystemRDL converter (parseo\_excel.py)\<close>

text \<open>
  The converter reads three sheets of a workbook (Blocks, Registers, Fields) with pandas,
  groups registers by block name and fields by register name, and writes nested
  \<^verbatim>\<open>addrmap { reg { field { } } }\<close> text. This theory embeds the three functions of the
  script and its main block, and states the properties of the written text.

  Conventions of the embedding.
  \<^item> A Python \<^verbatim>\<open>str\<close> is a \<^typ>\<open>string\<close>; each \<^typ>\<open>char\<close> is one code point below 256
    (the Latin-1 range of Unicode), on which \<^verbatim>\<open>str.lower\<close>, \<^verbatim>\<open>str.strip\<close> and
    \<^verbatim>\<open>int\<close> are closed.
  \<^item> A cell of a data frame is dynamically typed: missing (NaN), text, or an integer.
    Floating-point cells are outside the model: pandas reads a numeric column that has
    empty cells as floats, for which \<^verbatim>\<open>str\<close> gives \<^verbatim>\<open>4.0\<close> where an integer
    cell gives \<^verbatim>\<open>4\<close>; the statements below are about the three kinds of cell named
    here.
  \<^item> Column labels are strings, and no two labels of a sheet are equal once stripped (with
    others pandas raises on \<^verbatim>\<open>columns.str\<close> or returns a series for \<^verbatim>\<open>row[label]\<close>).
  \<^item> An exception is a value of \<open>error\<close>; a computation that may raise returns
    \<open>error + 'a\<close>.
  \<^item> \<^verbatim>\<open>f.write\<close> appends one chunk to the list of chunks written so far, \<^verbatim>\<open>print\<close>
    appends one message to the console.
\<close>

subsection \<open>Python strings\<close>

definition nl :: string where
  "nl = [CHR 0x0A]"

definition dq :: string where
  "dq = [CHR 0x22]"

text \<open>The code points below 256 for which \<^verbatim>\<open>str.isspace\<close> holds.\<close>

definition whitespace :: "char list" where
  "whitespace = [CHR 0x09, CHR 0x0A, CHR 0x0B, CHR 0x0C, CHR 0x0D,
                 CHR 0x1C, CHR 0x1D, CHR 0x1E, CHR 0x1F, CHR 0x20, CHR 0x85, CHR 0xA0]"

definition is_space :: "char \<Rightarrow> bool" where
  "is_space c = (c \<in> set whitespace)"

text \<open>\<^verbatim>\<open>s.strip()\<close>: leading and trailing whitespace removed.\<close>

definition strip :: "string \<Rightarrow> string" where
  "strip s = rev (dropWhile is_space (rev (dropWhile is_space s)))"

text \<open>The cased code points below 256: upper case, and the lower case of each.\<close>

definition upper_chars :: string where
  "upper_chars = ''ABCDEFGHIJKLMNOPQRSTUVWXYZ'' @
     [CHR 0xC0, CHR 0xC1, CHR 0xC2, CHR 0xC3, CHR 0xC4, CHR 0xC5, CHR 0xC6, CHR 0xC7,
      CHR 0xC8, CHR 0xC9, CHR 0xCA, CHR 0xCB, CHR 0xCC, CHR 0xCD, CHR 0xCE, CHR 0xCF,
      CHR 0xD0, CHR 0xD1, CHR 0xD2, CHR 0xD3, CHR 0xD4, CHR 0xD5, CHR 0xD6,
      CHR 0xD8, CHR 0xD9, CHR 0xDA, CHR 0xDB, CHR 0xDC, CHR 0xDD, CHR 0xDE]"

definition lower_chars :: string where
  "lower_chars = ''abcdefghijklmnopqrstuvwxyz'' @
     [CHR 0xE0, CHR 0xE1, CHR 0xE2, CHR 0xE3, CHR 0xE4, CHR 0xE5, CHR 0xE6, CHR 0xE7,
      CHR 0xE8, CHR 0xE9, CHR 0xEA, CHR 0xEB, CHR 0xEC, CHR 0xED, CHR 0xEE, CHR 0xEF,
      CHR 0xF0, CHR 0xF1, CHR 0xF2, CHR 0xF3, CHR 0xF4, CHR 0xF5, CHR 0xF6,
      CHR 0xF8, CHR 0xF9, CHR 0xFA, CHR 0xFB, CHR 0xFC, CHR 0xFD, CHR 0xFE]"

definition lower_char :: "char \<Rightarrow> char" where
  "lower_char c = (case map_of (zip upper_chars lower_chars) c of Some d \<Rightarrow> d | None \<Rightarrow> c)"

text \<open>\<^verbatim>\<open>s.lower()\<close>\<close>

definition lower :: "string \<Rightarrow> string" where
  "lower s = map lower_char s"

text \<open>
  \<^verbatim>\<open>s.replace(old, new)\<close>: every non-overlapping occurrence of \<open>old\<close>, found from the
  left, becomes \<open>new\<close>; with an empty \<open>old\<close>, \<open>new\<close> is put before every character and at
  the end.
\<close>

function replace :: "string \<Rightarrow> string \<Rightarrow> string \<Rightarrow> string" where
  "replace old new [] = (if old = [] then new else [])"
| "replace old new (c # cs) =
     (if old = [] then new @ c # replace old new cs
      else if take (length old) (c # cs) = old
           then new @ replace old new (drop (length old) (c # cs))
           else c # replace old new cs)"
  by pat_completeness auto
termination
  by (relation "measure (\<lambda>(old, new, s). length s)") auto

text \<open>\<^verbatim>\<open>str(n)\<close> of an integer: decimal digits, with a minus sign when negative.\<close>

definition digit_char :: "nat \<Rightarrow> char" where
  "digit_char d = ''0123456789'' ! d"

fun nat_digits :: "nat \<Rightarrow> nat \<Rightarrow> string" where
  "nat_digits b n = (if b < 2 \<or> n < b then [digit_char n]
                     else nat_digits b (n div b) @ [digit_char (n mod b)])"

declare nat_digits.simps [simp del]

definition str_int :: "int \<Rightarrow> string" where
  "str_int i = (if i < 0 then ''-'' @ nat_digits 10 (nat (- i)) else nat_digits 10 (nat i))"

subsection \<open>Exceptions and cells\<close>

datatype error =
    FileNotFoundError
  | KeyError string
  | ValueError
  | TypeError
  | OtherError string

text \<open>\<^verbatim>\<open>try: a; then f(a)\<close>: the first exception raised ends the computation.\<close>

definition bind :: "error + 'a \<Rightarrow> ('a \<Rightarrow> error + 'b) \<Rightarrow> error + 'b" where
  "bind m f = (case m of Inl e \<Rightarrow> Inl e | Inr a \<Rightarrow> f a)"

datatype cell = NaN | Text string | Number int

text \<open>\<^verbatim>\<open>pd.notna(x)\<close>\<close>

definition notna :: "cell \<Rightarrow> bool" where
  "notna x = (x \<noteq> NaN)"

text \<open>\<^verbatim>\<open>str(x)\<close> of a cell.\<close>

fun py_str :: "cell \<Rightarrow> string" where
  "py_str NaN = ''nan''"
| "py_str (Text s) = s"
| "py_str (Number i) = str_int i"

text \<open>
  \<^verbatim>\<open>int(x)\<close> of a cell. NaN cannot be converted. A text is converted when, stripped of
  whitespace, it is an optional sign and decimal digits, single underscores allowed
  between digits.
\<close>

definition is_digit :: "char \<Rightarrow> bool" where
  "is_digit c = (c \<in> set ''0123456789'')"

definition digit_val :: "char \<Rightarrow> nat" where
  "digit_val c = (case map_of (zip ''0123456789'' [0 ..< 10]) c of Some d \<Rightarrow> d | None \<Rightarrow> 0)"

fun int_digits :: "nat \<Rightarrow> string \<Rightarrow> nat option" where
  "int_digits acc [] = Some acc"
| "int_digits acc [c] = (if is_digit c then Some (acc * 10 + digit_val c) else None)"
| "int_digits acc (c # d # cs) =
     (if is_digit c then int_digits (acc * 10 + digit_val c) (d # cs)
      else if c = CHR ''_'' \<and> is_digit d then int_digits (acc * 10 + digit_val d) cs
      else None)"

definition int_unsigned :: "string \<Rightarrow> nat option" where
  "int_unsigned s = (case s of [] \<Rightarrow> None
                     | c # cs \<Rightarrow> if is_digit c then int_digits (digit_val c) cs else None)"

definition int_of_str :: "string \<Rightarrow> error + int" where
  "int_of_str s =
     (let t = strip s;
          (sgn, u) = (case t of [] \<Rightarrow> (1, [])
                      | c # cs \<Rightarrow> if c = CHR ''-'' then (- 1, cs)
                                 else if c = CHR ''+'' then (1, cs) else (1, t))
      in case int_unsigned u of None \<Rightarrow> Inl ValueError | Some n \<Rightarrow> Inr (sgn * int n))"

fun py_int :: "cell \<Rightarrow> error + int" where
  "py_int NaN = Inl ValueError"
| "py_int (Text s) = int_of_str s"
| "py_int (Number i) = Inr i"

subsection \<open>\<^verbatim>\<open>access_to_rdl\<close> and \<^verbatim>\<open>sanitize_name\<close>\<close>

definition access_map :: "(string \<times> (string \<times> string option)) list" where
  "access_map = [(''rw'', (''rw'', None)),
                 (''ro'', (''r'', None)),
                 (''wo'', (''w'', None)),
                 (''w1c'', (''w'', Some ''woclr''))]"

definition access_to_rdl :: "string \<Rightarrow> string \<times> string option" where
  "access_to_rdl access_type =
     (case map_of access_map (lower access_type) of Some v \<Rightarrow> v | None \<Rightarrow> (''r'', None))"

definition sanitize_name :: "cell \<Rightarrow> string" where
  "sanitize_name name = replace ''-'' ''_'' (replace '' '' ''_'' (strip (py_str name)))"

text \<open>
  \<^verbatim>\<open>format(value, f'0{width}b')\<close>: the binary digits of the value after its sign, padded
  with zeros between sign and digits up to \<open>width\<close> characters; a negative width is not a
  format specification.
\<close>

definition format_bin :: "int \<Rightarrow> int \<Rightarrow> error + string" where
  "format_bin v width =
     (if width < 0 then Inl ValueError
      else let sgn = (if v < 0 then ''-'' else '''');
               ds = nat_digits 2 (nat \<bar>v\<bar>)
           in Inr (sgn @ replicate (nat width - length sgn - length ds) CHR ''0'' @ ds))"

subsection \<open>Data frames\<close>

text \<open>
  A data frame is its column labels and its rows of cells; \<^verbatim>\<open>iterrows\<close> yields each row
  as a series, the cells under their labels. \<^verbatim>\<open>row[label]\<close> raises \<^verbatim>\<open>KeyError\<close> when
  the frame has no such column. The labels of a frame are taken to be distinct.
\<close>

record table =
  columns :: "string list"
  data :: "cell list list"

type_synonym row = "(string \<times> cell) list"

definition series :: "table \<Rightarrow> cell list \<Rightarrow> row" where
  "series t r = zip (columns t) r"

definition iterrows :: "table \<Rightarrow> row list" where
  "iterrows t = map (series t) (data t)"

definition getitem :: "row \<Rightarrow> string \<Rightarrow> error + cell" where
  "getitem r label = (case map_of r label of None \<Rightarrow> Inl (KeyError label) | Some c \<Rightarrow> Inr c)"

text \<open>\<^verbatim>\<open>df.columns = df.columns.str.strip()\<close>, for labels that are strings.\<close>

definition strip_columns :: "table \<Rightarrow> table" where
  "strip_columns df = df\<lparr>columns := map strip (columns df)\<rparr>"

text \<open>
  \<^verbatim>\<open>df.groupby(label)\<close>: the frame with the grouping column. The keys of \<^verbatim>\<open>.groups\<close> are the
  cells of that column that are not missing, so a \<^verbatim>\<open>str\<close> is a key exactly when some row
  has it as a text cell there; \<^verbatim>\<open>get_group(name)\<close> is the frame of those rows, in the
  order of the frame.
\<close>

record grouped =
  frame :: table
  key :: string

definition groupby :: "table \<Rightarrow> string \<Rightarrow> error + grouped" where
  "groupby df label =
     (if label \<in> set (columns df) then Inr \<lparr>frame = df, key = label\<rparr> else Inl (KeyError label))"

definition has_key :: "grouped \<Rightarrow> string \<Rightarrow> cell list \<Rightarrow> bool" where
  "has_key g name r = (map_of (series (frame g) r) (key g) = Some (Text name))"

definition in_groups :: "string \<Rightarrow> grouped \<Rightarrow> bool" where
  "in_groups name g = list_ex (has_key g name) (data (frame g))"

definition get_group :: "grouped \<Rightarrow> string \<Rightarrow> table" where
  "get_group g name = (frame g)\<lparr>data := filter (has_key g name) (data (frame g))\<rparr>"

text \<open>
  \<^verbatim>\<open>df.sort_values(label)\<close>: ascending by the cells of the column, rows with a missing cell
  last; integers are compared as numbers, texts as strings, and a column with both
  cannot be compared. The order of rows with equal keys is not fixed by pandas (its default
  sort is a quicksort, not a stable sort); here they keep the order of the frame, and
  no statement below depends on the order among equal keys.
\<close>

definition cell_of :: "table \<Rightarrow> string \<Rightarrow> cell list \<Rightarrow> cell" where
  "cell_of df label r = (case map_of (series df r) label of None \<Rightarrow> NaN | Some c \<Rightarrow> c)"

fun is_number :: "cell \<Rightarrow> bool" where
  "is_number (Number i) = True"
| "is_number c = False"

fun is_text :: "cell \<Rightarrow> bool" where
  "is_text (Text s) = True"
| "is_text c = False"

fun number_of :: "cell \<Rightarrow> int" where
  "number_of (Number i) = i"
| "number_of c = 0"

fun text_of :: "cell \<Rightarrow> string" where
  "text_of (Text s) = s"
| "text_of c = []"

definition sort_values :: "table \<Rightarrow> string \<Rightarrow> error + table" where
  "sort_values df label =
     (if label \<notin> set (columns df) then Inl (KeyError label)
      else let present = filter (\<lambda>r. notna (cell_of df label r)) (data df);
               missing = filter (\<lambda>r. \<not> notna (cell_of df label r)) (data df)
           in if list_all (\<lambda>r. is_number (cell_of df label r)) present
              then Inr (df\<lparr>data := sort_key (\<lambda>r. number_of (cell_of df label r)) present @ missing\<rparr>)
              else if list_all (\<lambda>r. is_text (cell_of df label r)) present
              then Inr (df\<lparr>data := sort_key (\<lambda>r. text_of (cell_of df label r)) present @ missing\<rparr>)
              else Inl TypeError)"

subsection \<open>The output file and the console\<close>

text \<open>
  One constructor for each \<^verbatim>\<open>print\<close> of the script; the fixed multi-line texts (usage,
  next steps, the two lines of each failure report) are one message each.
\<close>

datatype msg =
    Banner
  | Title
  | Usage
  | Reading string
  | Found nat nat nat
  | ProcessingBlock string
  | NoRegisters string
  | ProcessingRegister string string
  | NoFields string
  | FieldInfo string int int int string string
  | Generated string
  | NextSteps string
  | NotFound string
  | MissingKey string
  | Failed error
  | Traceback

record state =
  opened :: bool
  written :: "string list"
  console :: "msg list"

definition f_write :: "string \<Rightarrow> state \<Rightarrow> state" where
  "f_write s st = st\<lparr>written := written st @ [s]\<rparr>"

definition print :: "msg \<Rightarrow> state \<Rightarrow> state" where
  "print m st = st\<lparr>console := console st @ [m]\<rparr>"

subsection \<open>\<^verbatim>\<open>generate_rdl_from_excel\<close>: one field\<close>

text \<open>
  The local variables of the body of the loop over the fields of a register (lines
  140 to 152), in the order the script computes them; every conversion that can raise
  comes before the first \<^verbatim>\<open>f.write\<close> of the field.
\<close>

record field_vars =
  field_name :: string
  lsb :: int
  width :: int
  msb :: int
  access :: string
  reset_value :: int
  field_desc :: string
  sw_access :: string
  onwrite :: "string option"
  reset_bin :: string

definition field_locals :: "row \<Rightarrow> error + field_vars" where
  "field_locals field =
     bind (getitem field ''Field Name'') (\<lambda>c_name.
     bind (getitem field ''LSB'') (\<lambda>c_lsb.
     bind (py_int c_lsb) (\<lambda>lsb.
     bind (getitem field ''Width'') (\<lambda>c_width.
     bind (py_int c_width) (\<lambda>width.
     bind (getitem field ''Access'') (\<lambda>c_access.
     bind (getitem field ''Reset Value'') (\<lambda>c_reset.
     bind (if notna c_reset then py_int c_reset else Inr 0) (\<lambda>reset_value.
     bind (getitem field ''Description'') (\<lambda>c_desc.
     bind (format_bin reset_value width) (\<lambda>reset_bin.
       Inr \<lparr>field_name = sanitize_name c_name,
            lsb = lsb,
            width = width,
            msb = lsb + width - 1,
            access = strip (py_str c_access),
            reset_value = reset_value,
            field_desc = (if notna c_desc then strip (py_str c_desc)
                          else sanitize_name c_name @ '' field''),
            sw_access = fst (access_to_rdl (strip (py_str c_access))),
            onwrite = snd (access_to_rdl (strip (py_str c_access))),
            reset_bin = reset_bin\<rparr>))))))))))"

text \<open>The chunks written for one field (lines 157 to 167).\<close>

definition field_text :: "field_vars \<Rightarrow> string list" where
  "field_text v =
     [''        field {'' @ nl,
      ''            name = '' @ dq @ field_name v @ dq @ '';'' @ nl,
      ''            desc = '' @ dq @ field_desc v @ dq @ '';'' @ nl,
      ''            sw = '' @ sw_access v @ '';'' @ nl,
      ''            hw = r;'' @ nl]
     @ (case onwrite v of None \<Rightarrow> []
        | Some w \<Rightarrow> if w = [] then [] else [''            onwrite = '' @ w @ '';'' @ nl])
     @ [''        } '' @ field_name v @ ''['' @ str_int (msb v) @ '':'' @ str_int (lsb v)
          @ ''] = '' @ str_int (width v) @ [CHR 0x27] @ ''b'' @ reset_bin v @ '';'' @ nl @ nl]"

definition emit_field :: "row \<Rightarrow> state \<Rightarrow> error option \<times> state" where
  "emit_field field st =
     (case field_locals field of
        Inl e \<Rightarrow> (Some e, st)
      | Inr v \<Rightarrow>
          (None, foldl (\<lambda>s chunk. f_write chunk s)
                   (print (FieldInfo (field_name v) (msb v) (lsb v) (width v) (reset_bin v) (access v)) st)
                   (field_text v)))"

fun emit_fields :: "row list \<Rightarrow> state \<Rightarrow> error option \<times> state" where
  "emit_fields [] st = (None, st)"
| "emit_fields (field # rest) st =
     (case emit_field field st of
        (Some e, st') \<Rightarrow> (Some e, st')
      | (None, st') \<Rightarrow> emit_fields rest st')"

subsection \<open>One register\<close>

record reg_vars =
  reg_name :: string
  reg_offset :: string
  reg_desc :: string
  reg_width :: int

definition reg_locals :: "row \<Rightarrow> error + reg_vars" where
  "reg_locals register =
     bind (getitem register ''Register Name'') (\<lambda>c_name.
     bind (getitem register ''Offset'') (\<lambda>c_offset.
     bind (getitem register ''Description'') (\<lambda>c_desc.
     bind (getitem register ''Width (bits)'') (\<lambda>c_width.
     bind (if notna c_width then py_int c_width else Inr 32) (\<lambda>reg_width.
       Inr \<lparr>reg_name = sanitize_name c_name,
            reg_offset = strip (py_str c_offset),
            reg_desc = (if notna c_desc then strip (py_str c_desc)
                        else sanitize_name c_name @ '' Register''),
            reg_width = reg_width\<rparr>)))))"

definition reg_header :: "reg_vars \<Rightarrow> string list" where
  "reg_header v =
     [''    // Registro '' @ reg_name v @ nl,
      ''    reg {'' @ nl,
      ''        name = '' @ dq @ reg_name v @ dq @ '';'' @ nl,
      ''        desc = '' @ dq @ reg_desc v @ dq @ '';'' @ nl,
      ''        regwidth = '' @ str_int (reg_width v) @ '';'' @ nl @ nl]"

definition reg_no_fields :: string where
  "reg_no_fields = ''        // No se encontraron campos para este registro'' @ nl @ nl"

definition reg_close :: "reg_vars \<Rightarrow> string" where
  "reg_close v = ''    } '' @ reg_name v @ '' @ '' @ reg_offset v @ '';'' @ nl @ nl"

definition emit_register :: "grouped \<Rightarrow> row \<Rightarrow> state \<Rightarrow> error option \<times> state" where
  "emit_register fields_by_register register st =
     (case reg_locals register of
        Inl e \<Rightarrow> (Some e, st)
      | Inr v \<Rightarrow>
          let st1 = foldl (\<lambda>s chunk. f_write chunk s)
                      (print (ProcessingRegister (reg_name v) (reg_offset v)) st) (reg_header v)
          in if \<not> in_groups (reg_name v) fields_by_register
             then (None, f_write (reg_close v) (f_write reg_no_fields (print (NoFields (reg_name v)) st1)))
             else (case sort_values (get_group fields_by_register (reg_name v)) ''LSB'' of
                     Inl e \<Rightarrow> (Some e, st1)
                   | Inr register_fields \<Rightarrow>
                       (case emit_fields (iterrows register_fields) st1 of
                          (Some e, st2) \<Rightarrow> (Some e, st2)
                        | (None, st2) \<Rightarrow> (None, f_write (reg_close v) st2))))"

fun emit_registers :: "grouped \<Rightarrow> row list \<Rightarrow> state \<Rightarrow> error option \<times> state" where
  "emit_registers fields_by_register [] st = (None, st)"
| "emit_registers fields_by_register (register # rest) st =
     (case emit_register fields_by_register register st of
        (Some e, st') \<Rightarrow> (Some e, st')
      | (None, st') \<Rightarrow> emit_registers fields_by_register rest st')"

subsection \<open>One block\<close>

record block_vars =
  block_name :: string
  base_address :: string
  block_desc :: string

definition block_locals :: "row \<Rightarrow> error + block_vars" where
  "block_locals block =
     bind (getitem block ''Block Name'') (\<lambda>c_name.
     bind (getitem block ''Base Address'') (\<lambda>c_base.
     bind (getitem block ''Description'') (\<lambda>c_desc.
       Inr \<lparr>block_name = sanitize_name c_name,
            base_address = strip (py_str c_base),
            block_desc = (if notna c_desc then strip (py_str c_desc)
                          else sanitize_name c_name @ '' Block'')\<rparr>)))"

definition block_header :: "block_vars \<Rightarrow> string list" where
  "block_header v =
     [''addrmap '' @ block_name v @ '' {'' @ nl,
      ''    name = '' @ dq @ block_name v @ dq @ '';'' @ nl,
      ''    desc = '' @ dq @ block_desc v @ dq @ '';'' @ nl @ nl]"

definition block_no_registers :: string where
  "block_no_registers = ''    // No se encontraron registros para este bloque'' @ nl @ nl"

definition block_close :: string where
  "block_close = ''};'' @ nl @ nl"

definition emit_block :: "grouped \<Rightarrow> grouped \<Rightarrow> row \<Rightarrow> state \<Rightarrow> error option \<times> state" where
  "emit_block registers_by_block fields_by_register block st =
     (case block_locals block of
        Inl e \<Rightarrow> (Some e, st)
      | Inr v \<Rightarrow>
          let st1 = foldl (\<lambda>s chunk. f_write chunk s)
                      (print (ProcessingBlock (block_name v)) st) (block_header v)
          in if \<not> in_groups (block_name v) registers_by_block
             then (None, f_write block_close
                           (f_write block_no_registers (print (NoRegisters (block_name v)) st1)))
             else (case emit_registers fields_by_register
                          (iterrows (get_group registers_by_block (block_name v))) st1 of
                     (Some e, st2) \<Rightarrow> (Some e, st2)
                   | (None, st2) \<Rightarrow> (None, f_write block_close st2)))"

fun emit_blocks :: "grouped \<Rightarrow> grouped \<Rightarrow> row list \<Rightarrow> state \<Rightarrow> error option \<times> state" where
  "emit_blocks registers_by_block fields_by_register [] st = (None, st)"
| "emit_blocks registers_by_block fields_by_register (block # rest) st =
     (case emit_block registers_by_block fields_by_register block st of
        (Some e, st') \<Rightarrow> (Some e, st')
      | (None, st') \<Rightarrow> emit_blocks registers_by_block fields_by_register rest st')"

subsection \<open>The whole conversion and the command line\<close>

text \<open>
  The world outside the script: what \<^verbatim>\<open>pd.read_excel(path, sheet_name=...)\<close> returns or
  raises for a path and a sheet, and whether opening the output path for writing raises.
\<close>

record env =
  read_excel :: "string \<Rightarrow> string \<Rightarrow> error + table"
  open_w :: "string \<Rightarrow> error option"

definition load_sheet :: "env \<Rightarrow> string \<Rightarrow> string \<Rightarrow> error + table" where
  "load_sheet world excel_file sheet =
     bind (read_excel world excel_file sheet) (\<lambda>df. Inr (strip_columns df))"

definition load_tables :: "env \<Rightarrow> string \<Rightarrow> error + table \<times> table \<times> table" where
  "load_tables world excel_file =
     bind (load_sheet world excel_file ''Blocks'') (\<lambda>df_blocks.
     bind (load_sheet world excel_file ''Registers'') (\<lambda>df_registers.
     bind (load_sheet world excel_file ''Fields'') (\<lambda>df_fields.
       Inr (df_blocks, df_registers, df_fields))))"

definition make_groups :: "table \<Rightarrow> table \<Rightarrow> error + grouped \<times> grouped" where
  "make_groups df_registers df_fields =
     bind (groupby df_registers ''Block Name'') (\<lambda>registers_by_block.
     bind (groupby df_fields ''Register Name'') (\<lambda>fields_by_register.
       Inr (registers_by_block, fields_by_register)))"

text \<open>\<^verbatim>\<open>open(output_file, 'w')\<close> truncates the file.\<close>

definition open_output :: "state \<Rightarrow> state" where
  "open_output st = st\<lparr>opened := True, written := []\<rparr>"

text \<open>
  The body of the \<^verbatim>\<open>try\<close> (lines 41 to 179): the exception that ends it, if any, and the
  state it leaves.
\<close>

definition try_body :: "env \<Rightarrow> string \<Rightarrow> string \<Rightarrow> state \<Rightarrow> error option \<times> state" where
  "try_body world excel_file output_file st =
     (case load_tables world excel_file of
        Inl e \<Rightarrow> (Some e, print (Reading excel_file) st)
      | Inr (df_blocks, df_registers, df_fields) \<Rightarrow>
          (case make_groups df_registers df_fields of
             Inl e \<Rightarrow>
               (Some e, print (Found (length (data df_blocks)) (length (data df_registers))
                                 (length (data df_fields)))
                          (print (Reading excel_file) st))
           | Inr (registers_by_block, fields_by_register) \<Rightarrow>
               (case open_w world output_file of
                  Some e \<Rightarrow>
                    (Some e, print (Found (length (data df_blocks)) (length (data df_registers))
                                      (length (data df_fields)))
                               (print (Reading excel_file) st))
                | None \<Rightarrow>
                    (case emit_blocks registers_by_block fields_by_register (iterrows df_blocks)
                            (open_output
                               (print (Found (length (data df_blocks)) (length (data df_registers))
                                         (length (data df_fields)))
                                  (print (Reading excel_file) st))) of
                       (Some e, st2) \<Rightarrow> (Some e, st2)
                     | (None, st2) \<Rightarrow>
                         (None, print (NextSteps output_file)
                                  (print (Generated output_file) st2))))))"

text \<open>The three \<^verbatim>\<open>except\<close> clauses, in their order.\<close>

fun report :: "string \<Rightarrow> error \<Rightarrow> state \<Rightarrow> state" where
  "report excel_file FileNotFoundError st = print (NotFound excel_file) st"
| "report excel_file (KeyError k) st = print (MissingKey k) st"
| "report excel_file e st = print Traceback (print (Failed e) st)"

definition generate_rdl_from_excel :: "env \<Rightarrow> string \<Rightarrow> string \<Rightarrow> state \<Rightarrow> state" where
  "generate_rdl_from_excel world excel_file output_file st =
     (case try_body world excel_file output_file st of
        (None, st') \<Rightarrow> st'
      | (Some e, st') \<Rightarrow> report excel_file e st')"

text \<open>
  The main block: \<open>argv\<close> is \<^verbatim>\<open>sys.argv\<close>, the script's name first. The result is the exit
  code of the process and the final state.
\<close>

definition initial :: state where
  "initial = \<lparr>opened = False, written = [], console = []\<rparr>"

definition main :: "env \<Rightarrow> string list \<Rightarrow> nat \<times> state" where
  "main world argv =
     (let st0 = print Banner (print Title (print Banner initial))
      in if length argv < 2 then (1, print Usage st0)
         else let excel_file = argv ! 1;
                  output_file = (if length argv > 2 then argv ! 2 else ''generated_registers.rdl'')
              in (0, print Banner (generate_rdl_from_excel world excel_file output_file st0)))"

subsection \<open>The specification's reading of name sanitisation\<close>

text \<open>
  Following the specification's words: the name as a string, with every whitespace
  character and every hyphen replaced by an underscore.
\<close>

definition sanitize_spec :: "cell \<Rightarrow> string" where
  "sanitize_spec name =
     map (\<lambda>c. if is_space c \<or> c = CHR ''-'' then CHR ''_'' else c) (py_str name)"

text \<open>The state after further chunks and messages.\<close>

definition extend :: "state \<Rightarrow> string list \<Rightarrow> msg list \<Rightarrow> state" where
  "extend st chunks msgs = st\<lparr>written := written st @ chunks, console := console st @ msgs\<rparr>"

text \<open>The number a string of binary digits denotes.\<close>

definition bin_value :: "string \<Rightarrow> nat" where
  "bin_value s = foldl (\<lambda>a c. 2 * a + (if c = CHR ''1'' then 1 else 0)) 0 s"

text \<open>
  Following the specification's words: the rows of a frame whose cell in the name column
  is equal to the name cell of the owner.
\<close>

definition rows_named :: "table \<Rightarrow> string \<Rightarrow> cell \<Rightarrow> cell list list" where
  "rows_named df label name = filter (\<lambda>r. map_of (series df r) label = Some name) (data df)"

text \<open>The LSBs of the fields reported on the console, in the order of their emission.\<close>

fun msg_lsb :: "msg \<Rightarrow> int list" where
  "msg_lsb (FieldInfo n hi lo w bits acc) = [lo]"
| "msg_lsb m = []"

definition emitted_lsbs :: "msg list \<Rightarrow> int list" where
  "emitted_lsbs msgs = concat (map msg_lsb msgs)"

subsection \<open>Example rows and frames\<close>

definition ex_field :: row where
  "ex_field = [(''Register Name'', Text ''CTRL''), (''Field Name'', Text ''EN''),
               (''LSB'', Number 4), (''Width'', Number 3), (''Access'', Text ''w1c''),
               (''Reset Value'', Number 5), (''Description'', NaN)]"

definition ex_register :: row where
  "ex_register = [(''Block Name'', Text ''UART''), (''Register Name'', Text ''STATUS''),
                  (''Offset'', Text ''0x04''), (''Description'', NaN), (''Width (bits)'', NaN)]"

definition ex_block :: row where
  "ex_block = [(''Block Name'', Text ''TIMER''), (''Base Address'', Text ''0x3000''),
               (''Size'', Number 256), (''Description'', NaN)]"

definition ex_registers :: table where
  "ex_registers =
     \<lparr>columns = [''Block Name'', ''Register Name'', ''Offset'', ''Description'', ''Width (bits)''],
      data = [[Text ''UART'', Text ''STATUS'', Text ''0x04'', NaN, NaN]]\<rparr>"

definition ex_fields :: table where
  "ex_fields =
     \<lparr>columns = [''Register Name'', ''Field Name'', ''LSB'', ''Width'', ''Access'',
                 ''Reset Value'', ''Description''],
      data = [[Text ''CTRL'', Text ''EN'', Number 4, Number 3, Text ''w1c'', Number 5, NaN]]\<rparr>"


definition ex_dup_fields :: table where
  "ex_dup_fields =
     \<lparr>columns = [''Register Name'', ''Field Name'', ''LSB'', ''Width'', ''Access'',
                 ''Reset Value'', ''Description''],
      data = [[Text ''STATUS'', Text ''BUSY'', Number 0, Number 1, Text ''ro'', Number 0, NaN],
              [Text ''STATUS'', Text ''DONE'', Number 0, Number 1, Text ''ro'', Number 0, NaN]]\<rparr>"

definition ex_sorted_fields :: table where
  "ex_sorted_fields =
     \<lparr>columns = [''Register Name'', ''Field Name'', ''LSB'', ''Width'', ''Access'',
                 ''Reset Value'', ''Description''],
      data = [[Text ''STATUS'', Text ''DONE'', Number 4, Number 1, Text ''ro'', Number 0, NaN],
              [Text ''STATUS'', Text ''BUSY'', Number 0, Number 1, Text ''ro'', Number 0, NaN]]\<rparr>"

definition ex_no_file :: env where
  "ex_no_file = \<lparr>read_excel = (\<lambda>path sheet. Inl FileNotFoundError), open_w = (\<lambda>path. None)\<rparr>"

text \<open>A workbook whose names contain a space.\<close>

definition ex_spaced_blocks :: table where
  "ex_spaced_blocks =
     \<lparr>columns = [''Block Name'', ''Base Address'', ''Size'', ''Description''],
      data = [[Text ''UART'', Text ''0x1000'', Number 256, NaN],
              [Text ''GPIO 0'', Text ''0x2000'', Number 256, NaN]]\<rparr>"

definition ex_spaced_registers :: table where
  "ex_spaced_registers =
     \<lparr>columns = [''Block Name'', ''Register Name'', ''Offset'', ''Description'', ''Width (bits)''],
      data = [[Text ''UART'', Text ''CTRL REG'', Text ''0x00'', NaN, NaN],
              [Text ''GPIO 0'', Text ''DIR'', Text ''0x00'', NaN, NaN]]\<rparr>"

definition ex_spaced_fields :: table where
  "ex_spaced_fields =
     \<lparr>columns = [''Register Name'', ''Field Name'', ''LSB'', ''Width'', ''Access'',
                 ''Reset Value'', ''Description''],
      data = [[Text ''CTRL REG'', Text ''EN'', Number 0, Number 1, Text ''rw'', Number 0, NaN],
              [Text ''DIR'', Text ''PIN'', Number 0, Number 8, Text ''rw'', Number 0, NaN]]\<rparr>"

definition ex_spaced :: env where
  "ex_spaced =
     \<lparr>read_excel = (\<lambda>path sheet.
        if sheet = ''Blocks'' then Inr ex_spaced_blocks
        else if sheet = ''Registers'' then Inr ex_spaced_registers
        else if sheet = ''Fields'' then Inr ex_spaced_fields
        else Inl ValueError),
      open_w = (\<lambda>path. None)\<rparr>"





text \<open>A workbook whose Blocks sheet has no Description column.\<close>

definition ex_no_desc_blocks :: table where
  "ex_no_desc_blocks =
     \<lparr>columns = [''Block Name'', ''Base Address'', ''Size''],
      data = [[Text ''TIMER'', Text ''0x3000'', Number 256]]\<rparr>"

definition ex_no_desc_world :: env where
  "ex_no_desc_world =
     \<lparr>read_excel = (\<lambda>path sheet.
        if sheet = ''Blocks'' then Inr ex_no_desc_blocks
        else if sheet = ''Registers'' then Inr ex_registers
        else if sheet = ''Fields'' then Inr ex_fields
        else Inl ValueError),
      open_w = (\<lambda>path. None)\<rparr>"

text \<open>
  A workbook whose register row names the block by its sanitised name, and whose field row
  names the register by its sanitised name.
\<close>

definition ex_mismatch_blocks :: table where
  "ex_mismatch_blocks =
     \<lparr>columns = [''Block Name'', ''Base Address'', ''Size'', ''Description''],
      data = [[Text ''GPIO 0'', Text ''0x2000'', Number 256, NaN]]\<rparr>"

definition ex_mismatch_registers :: table where
  "ex_mismatch_registers =
     \<lparr>columns = [''Block Name'', ''Register Name'', ''Offset'', ''Description'', ''Width (bits)''],
      data = [[Text ''GPIO_0'', Text ''CTRL REG'', Text ''0x00'', NaN, NaN]]\<rparr>"

definition ex_mismatch_fields :: table where
  "ex_mismatch_fields =
     \<lparr>columns = [''Register Name'', ''Field Name'', ''LSB'', ''Width'', ''Access'',
                 ''Reset Value'', ''Description''],
      data = [[Text ''CTRL_REG'', Text ''EN'', Number 0, Number 1, Text ''rw'', Number 0, NaN]]\<rparr>"

definition ex_mismatch :: env where
  "ex_mismatch =
     \<lparr>read_excel = (\<lambda>path sheet.
        if sheet = ''Blocks'' then Inr ex_mismatch_blocks
        else if sheet = ''Registers'' then Inr ex_mismatch_registers
        else if sheet = ''Fields'' then Inr ex_mismatch_fields
        else Inl ValueError),
      open_w = (\<lambda>path. None)\<rparr>"

section \<open>Properties\<close>

subsection \<open>The access mapper\<close>

lemma lower_char_cases:
  "lower_char c = CHR ''r'' \<longleftrightarrow> c = CHR ''r'' \<or> c = CHR ''R''"
  "lower_char c = CHR ''w'' \<longleftrightarrow> c = CHR ''w'' \<or> c = CHR ''W''"
  "lower_char c = CHR ''o'' \<longleftrightarrow> c = CHR ''o'' \<or> c = CHR ''O''"
  "lower_char c = CHR ''c'' \<longleftrightarrow> c = CHR ''c'' \<or> c = CHR ''C''"
  "lower_char c = CHR ''1'' \<longleftrightarrow> c = CHR ''1''"
  by (simp_all add: lower_char_def upper_chars_def lower_chars_def)

lemma lower_eq_Nil: "lower s = [] \<longleftrightarrow> s = []"
  by (simp add: lower_def)

lemma lower_eq_Cons:
  "lower s = c # cs \<longleftrightarrow> (\<exists>x xs. s = x # xs \<and> lower_char x = c \<and> lower xs = cs)"
  by (cases s) (auto simp: lower_def)

lemma lower_rw: "lower s = ''rw'' \<longleftrightarrow> s \<in> {''rw'', ''rW'', ''Rw'', ''RW''}"
  by (auto simp: lower_eq_Cons lower_eq_Nil lower_char_cases)

lemma lower_ro: "lower s = ''ro'' \<longleftrightarrow> s \<in> {''ro'', ''rO'', ''Ro'', ''RO''}"
  by (auto simp: lower_eq_Cons lower_eq_Nil lower_char_cases)

lemma lower_wo: "lower s = ''wo'' \<longleftrightarrow> s \<in> {''wo'', ''wO'', ''Wo'', ''WO''}"
  by (auto simp: lower_eq_Cons lower_eq_Nil lower_char_cases)

lemma lower_w1c: "lower s = ''w1c'' \<longleftrightarrow> s \<in> {''w1c'', ''w1C'', ''W1c'', ''W1C''}"
  by (auto simp: lower_eq_Cons lower_eq_Nil lower_char_cases)

lemma access_to_rdl_lower:
  "access_to_rdl s =
     (if lower s = ''rw'' then (''rw'', None)
      else if lower s = ''ro'' then (''r'', None)
      else if lower s = ''wo'' then (''w'', None)
      else if lower s = ''w1c'' then (''w'', Some ''woclr'')
      else (''r'', None))"
  by (simp add: access_to_rdl_def access_map_def eq_commute [of _ "lower s"])

text \<open>
  C2. For every input string the access mapper returns a pair and raises nothing:
  (\<open>rw\<close>, none) for \<open>rw\<close> in any letter case, (\<open>r\<close>, none) for \<open>ro\<close>, (\<open>w\<close>, none) for
  \<open>wo\<close>, (\<open>w\<close>, \<open>woclr\<close>) for \<open>w1c\<close>, and (\<open>r\<close>, none) for every other string. The letter
  cases of each code are written out.
\<close>

theorem access_to_rdl_table:
  "access_to_rdl s =
     (if s \<in> {''rw'', ''rW'', ''Rw'', ''RW''} then (''rw'', None)
      else if s \<in> {''ro'', ''rO'', ''Ro'', ''RO''} then (''r'', None)
      else if s \<in> {''wo'', ''wO'', ''Wo'', ''WO''} then (''w'', None)
      else if s \<in> {''w1c'', ''w1C'', ''W1c'', ''W1C''} then (''w'', Some ''woclr'')
      else (''r'', None))"
  unfolding access_to_rdl_lower lower_rw lower_ro lower_wo lower_w1c ..

theorem access_to_rdl_table_witness:
  "access_to_rdl ''W1c'' = (''w'', Some ''woclr'') \<and> access_to_rdl ''rwx'' = (''r'', None)
   \<and> access_to_rdl ''Rw'' = (''rw'', None)"
  using access_to_rdl_table [of "''W1c''"] access_to_rdl_table [of "''rwx''"]
    access_to_rdl_table [of "''Rw''"]
  by simp

subsection \<open>Name sanitisation\<close>

lemma replace_single:
  "replace [a] [b] s = map (\<lambda>c. if c = a then b else c) s"
  by (induction s) auto

text \<open>
  C8, as stated, fails: \<^verbatim>\<open>strip\<close> removes a trailing (or leading) space instead of
  turning it into an underscore, and \<^verbatim>\<open>replace(' ', '_')\<close> replaces the space character
  only, so a tab inside a name stays a tab.
\<close>

theorem sanitize_name_counterexample:
  "sanitize_name (Text ''CTRL REG '') = ''CTRL_REG''
   \<and> sanitize_spec (Text ''CTRL REG '') = ''CTRL_REG_''
   \<and> sanitize_name (Text [CHR ''A'', CHR 0x09, CHR ''B'']) = [CHR ''A'', CHR 0x09, CHR ''B'']
   \<and> sanitize_spec (Text [CHR ''A'', CHR 0x09, CHR ''B'']) = ''A_B''"
  by (simp add: sanitize_name_def sanitize_spec_def strip_def is_space_def whitespace_def)

text \<open>
  C8, amended. The sanitised identifier is the name as a string, stripped of leading and
  trailing whitespace, with every remaining space character and every hyphen replaced by
  an underscore; every other character, whitespace other than the space included, is
  passed through.
\<close>

theorem sanitize_name_eq:
  "sanitize_name name =
     map (\<lambda>c. if c = CHR '' '' \<or> c = CHR ''-'' then CHR ''_'' else c) (strip (py_str name))"
  by (simp add: sanitize_name_def replace_single)

theorem sanitize_name_eq_witness:
  "sanitize_name (Text '' my-reg 0 '') = ''my_reg_0''"
  using sanitize_name_eq [of "Text '' my-reg 0 ''"]
  by (simp add: strip_def is_space_def whitespace_def)

subsection \<open>Binary digits\<close>

lemma digit_char_bit: "d < 2 \<Longrightarrow> digit_char d = (if d = 0 then CHR ''0'' else CHR ''1'')"
  by (cases d) (auto simp: digit_char_def)

lemma length_nat_digits_le:
  "n < 2 ^ k \<Longrightarrow> 0 < k \<Longrightarrow> length (nat_digits 2 n) \<le> k"
proof (induction n arbitrary: k rule: less_induct)
  case (less n)
  show ?case
  proof (cases "n < 2")
    case True
    then show ?thesis using less.prems by (simp add: nat_digits.simps [of 2 n])
  next
    case False
    then obtain j where k: "k = Suc j" "0 < j"
      using less.prems by (cases k; cases "k - 1") auto
    have "n div 2 < 2 ^ j" using less.prems k by auto
    from less.IH [OF _ this k(2)] False
    show ?thesis by (simp add: nat_digits.simps [of 2 n] k)
  qed
qed

lemma length_nat_digits_gt:
  "2 ^ k \<le> n \<Longrightarrow> k < length (nat_digits 2 n)"
proof (induction n arbitrary: k rule: less_induct)
  case (less n)
  show ?case
  proof (cases "n < 2")
    case True
    have "k = 0"
    proof (rule ccontr)
      assume "k \<noteq> 0"
      then have "(2::nat) ^ 1 \<le> 2 ^ k" by (intro power_increasing) auto
      with less.prems True show False by simp
    qed
    then show ?thesis using True by (simp add: nat_digits.simps [of 2 n])
  next
    case False
    show ?thesis
    proof (cases k)
      case 0
      then show ?thesis using False by (simp add: nat_digits.simps [of 2 n])
    next
      case (Suc j)
      then have "2 ^ j \<le> n div 2" using less.prems by auto
      from less.IH [OF _ this] False
      show ?thesis by (simp add: nat_digits.simps [of 2 n] Suc)
    qed
  qed
qed

lemma set_nat_digits2: "set (nat_digits 2 n) \<subseteq> {CHR ''0'', CHR ''1''}"
proof (induction n rule: less_induct)
  case (less n)
  show ?case
  proof (cases "n < 2")
    case True
    then show ?thesis by (simp add: nat_digits.simps [of 2 n] digit_char_bit)
  next
    case False
    with less.IH [of "n div 2"] show ?thesis
      by (simp add: nat_digits.simps [of 2 n] digit_char_bit)
  qed
qed

lemma bin_value_snoc:
  "bin_value (s @ [c]) = 2 * bin_value s + (if c = CHR ''1'' then 1 else 0)"
  by (simp add: bin_value_def)

lemma bin_value_nat_digits: "bin_value (nat_digits 2 n) = n"
proof (induction n rule: less_induct)
  case (less n)
  show ?case
  proof (cases "n < 2")
    case True
    then show ?thesis
      by (auto simp: nat_digits.simps [of 2 n] digit_char_bit bin_value_def)
  next
    case False
    then have d: "nat_digits 2 n = nat_digits 2 (n div 2) @ [digit_char (n mod 2)]"
      by (simp add: nat_digits.simps [of 2 n])
    have b: "(if digit_char (n mod 2) = CHR ''1'' then 1 else 0) = n mod 2"
      by (cases "n mod 2 = 0") (auto simp: digit_char_bit)
    have "bin_value (nat_digits 2 n) = 2 * bin_value (nat_digits 2 (n div 2)) + n mod 2"
      unfolding d bin_value_snoc b ..
    also have "\<dots> = 2 * (n div 2) + n mod 2"
      using False less.IH [of "n div 2"] by simp
    also have "\<dots> = n" by (rule mult_div_mod_eq)
    finally show ?thesis .
  qed
qed

lemma bin_value_zeros: "bin_value (replicate k CHR ''0'' @ s) = bin_value s"
proof -
  have "foldl (\<lambda>a c. 2 * a + (if c = CHR ''1'' then 1 else 0)) (0::nat) (replicate k CHR ''0'') = 0"
    by (induction k) auto
  then show ?thesis by (simp add: bin_value_def)
qed

lemma format_bin_nonneg:
  "0 \<le> v \<Longrightarrow> 0 \<le> w \<Longrightarrow>
   format_bin v w = Inr (replicate (nat w - length (nat_digits 2 (nat v))) CHR ''0'' @ nat_digits 2 (nat v))"
  by (simp add: format_bin_def Let_def)

lemma format_bin_length:
  assumes "0 \<le> v" "1 \<le> w" "format_bin v w = Inr s"
  shows "(v \<le> 2 ^ nat w - 1 \<longrightarrow> length s = nat w) \<and> (v > 2 ^ nat w - 1 \<longrightarrow> length s > nat w)"
proof -
  let ?ds = "nat_digits 2 (nat v)"
  have s: "s = replicate (nat w - length ?ds) CHR ''0'' @ ?ds"
    using assms format_bin_nonneg [of v w] by simp
  have pw: "(2::int) ^ nat w = int (2 ^ nat w)" by simp
  show ?thesis
  proof (intro conjI impI)
    assume "v \<le> 2 ^ nat w - 1"
    then have "nat v < 2 ^ nat w" using assms(1) unfolding pw by linarith
    then have "length ?ds \<le> nat w" using assms(2) by (intro length_nat_digits_le) auto
    then show "length s = nat w" by (simp add: s)
  next
    assume "v > 2 ^ nat w - 1"
    then have "2 ^ nat w \<le> nat v" using assms(1) unfolding pw by linarith
    then have "nat w < length ?ds" by (rule length_nat_digits_gt)
    then show "length s > nat w" by (simp add: s)
  qed
qed

lemma format_bin_digits:
  assumes "0 \<le> v" "0 \<le> w" "format_bin v w = Inr s"
  shows "set s \<subseteq> {CHR ''0'', CHR ''1''} \<and> int (bin_value s) = v"
proof -
  have s: "s = replicate (nat w - length (nat_digits 2 (nat v))) CHR ''0'' @ nat_digits 2 (nat v)"
    using assms format_bin_nonneg [of v w] by simp
  show ?thesis using set_nat_digits2 [of "nat v"] assms(1)
    by (auto simp: s bin_value_zeros bin_value_nat_digits)
qed

subsection \<open>Writing is appending\<close>

lemma bind_Inr [simp]: "bind (Inr a) f = f a"
  by (simp add: bind_def)

lemma bind_Inl [simp]: "bind (Inl e) f = Inl e"
  by (simp add: bind_def)

lemma extend_simps [simp]:
  "written (extend st ws ms) = written st @ ws"
  "console (extend st ws ms) = console st @ ms"
  "opened (extend st ws ms) = opened st"
  by (simp_all add: extend_def)

lemma extend_Nil [simp]: "extend st [] [] = st"
  by (simp add: extend_def)

lemma extend_extend [simp]: "extend (extend st ws ms) ws' ms' = extend st (ws @ ws') (ms @ ms')"
  by (simp add: extend_def)

lemma f_write_extend: "f_write s st = extend st [s] []"
  by (simp add: f_write_def extend_def)

lemma print_extend: "print m st = extend st [] [m]"
  by (simp add: print_def extend_def)

lemma foldl_f_write: "foldl (\<lambda>s chunk. f_write chunk s) st cs = extend st cs []"
  by (induction cs arbitrary: st) (simp_all add: f_write_extend)

lemma emit_field_eq:
  "emit_field field st =
     (case field_locals field of
        Inl e \<Rightarrow> (Some e, st)
      | Inr v \<Rightarrow> (None, extend st (field_text v)
                  [FieldInfo (field_name v) (msb v) (lsb v) (width v) (reset_bin v) (access v)]))"
  unfolding emit_field_def foldl_f_write print_extend
  by (simp split: sum.split)

lemma emit_field_uniform:
  "\<exists>err ws ms. \<forall>st. emit_field field st = (err, extend st ws ms)"
proof (cases "field_locals field")
  case (Inl e)
  then have "\<forall>st. emit_field field st = (Some e, extend st [] [])"
    by (simp add: emit_field_eq)
  then show ?thesis by blast
next
  case (Inr v)
  then show ?thesis by (simp add: emit_field_eq) blast
qed

lemma emit_fields_uniform:
  "\<exists>err ws ms. \<forall>st. emit_fields frows st = (err, extend st ws ms)"
proof (induction frows)
  case Nil
  have "\<forall>st. emit_fields [] st = (None, extend st [] [])" by simp
  then show ?case by blast
next
  case (Cons field rest)
  obtain e1 ws1 ms1 where 1: "\<And>st. emit_field field st = (e1, extend st ws1 ms1)"
    using emit_field_uniform by blast
  obtain e2 ws2 ms2 where 2: "\<And>st. emit_fields rest st = (e2, extend st ws2 ms2)"
    using Cons.IH by blast
  show ?case
  proof (cases e1)
    case None
    then have "\<forall>st. emit_fields (field # rest) st = (e2, extend st (ws1 @ ws2) (ms1 @ ms2))"
      by (simp add: 1 2)
    then show ?thesis by blast
  next
    case (Some e)
    then have "\<forall>st. emit_fields (field # rest) st = (Some e, extend st ws1 ms1)"
      by (simp add: 1)
    then show ?thesis by blast
  qed
qed

text \<open>The fields written by a loop that ends without an exception.\<close>

lemma emit_fields_ok:
  "emit_fields frows st = (None, st') \<Longrightarrow>
   \<exists>vs. map field_locals frows = map Inr vs \<and> written st' = written st @ concat (map field_text vs)"
proof (induction frows arbitrary: st)
  case Nil
  then show ?case by simp
next
  case (Cons field rest)
  from Cons.prems obtain v where v: "field_locals field = Inr v"
    by (cases "field_locals field") (auto simp: emit_field_eq)
  let ?st1 = "extend st (field_text v)
                [FieldInfo (field_name v) (msb v) (lsb v) (width v) (reset_bin v) (access v)]"
  from Cons.prems v have "emit_fields rest ?st1 = (None, st')"
    by (simp add: emit_field_eq)
  from Cons.IH [OF this] obtain vs where
    vs: "map field_locals rest = map Inr vs" "written st' = written ?st1 @ concat (map field_text vs)"
    by blast
  then have "map field_locals (field # rest) = map Inr (v # vs)
      \<and> written st' = written st @ concat (map field_text (v # vs))"
    using v by simp
  then show ?case by blast
qed

lemma emit_register_eq:
  "emit_register fbr register st =
     (case reg_locals register of
        Inl e \<Rightarrow> (Some e, st)
      | Inr v \<Rightarrow>
          if \<not> in_groups (reg_name v) fbr
          then (None, extend st (reg_header v @ [reg_no_fields, reg_close v])
                        [ProcessingRegister (reg_name v) (reg_offset v), NoFields (reg_name v)])
          else (case sort_values (get_group fbr (reg_name v)) ''LSB'' of
                  Inl e \<Rightarrow> (Some e, extend st (reg_header v)
                                      [ProcessingRegister (reg_name v) (reg_offset v)])
                | Inr register_fields \<Rightarrow>
                    (case emit_fields (iterrows register_fields)
                            (extend st (reg_header v)
                               [ProcessingRegister (reg_name v) (reg_offset v)]) of
                       (Some e, st2) \<Rightarrow> (Some e, st2)
                     | (None, st2) \<Rightarrow> (None, extend st2 [reg_close v] []))))"
  unfolding emit_register_def Let_def foldl_f_write print_extend
  by (simp add: f_write_extend split: sum.split prod.split option.split)

lemma emit_register_uniform:
  "\<exists>err ws ms. \<forall>st. emit_register fbr register st = (err, extend st ws ms)"
proof (cases "reg_locals register")
  case (Inl e)
  then have "\<forall>st. emit_register fbr register st = (Some e, extend st [] [])"
    by (simp add: emit_register_eq)
  then show ?thesis by blast
next
  case (Inr v)
  show ?thesis
  proof (cases "in_groups (reg_name v) fbr")
    case False
    with Inr show ?thesis by (simp add: emit_register_eq) blast
  next
    case True
    show ?thesis
    proof (cases "sort_values (get_group fbr (reg_name v)) ''LSB''")
      case (Inl e)
      with Inr True show ?thesis by (simp add: emit_register_eq) blast
    next
      case (Inr t)
      obtain e2 ws2 ms2 where 2: "\<And>st. emit_fields (iterrows t) st = (e2, extend st ws2 ms2)"
        using emit_fields_uniform by blast
      show ?thesis
      proof (cases e2)
        case None
        with \<open>reg_locals register = Inr v\<close> True Inr 2 show ?thesis
          by (simp add: emit_register_eq) blast
      next
        case (Some e)
        with \<open>reg_locals register = Inr v\<close> True Inr 2 show ?thesis
          by (simp add: emit_register_eq) blast
      qed
    qed
  qed
qed

lemma emit_registers_uniform:
  "\<exists>err ws ms. \<forall>st. emit_registers fbr registers st = (err, extend st ws ms)"
proof (induction registers)
  case Nil
  have "\<forall>st. emit_registers fbr [] st = (None, extend st [] [])" by simp
  then show ?case by blast
next
  case (Cons register rest)
  obtain e1 ws1 ms1 where 1: "\<And>st. emit_register fbr register st = (e1, extend st ws1 ms1)"
    using emit_register_uniform by blast
  obtain e2 ws2 ms2 where 2: "\<And>st. emit_registers fbr rest st = (e2, extend st ws2 ms2)"
    using Cons.IH by blast
  show ?case
  proof (cases e1)
    case None
    then have "\<forall>st. emit_registers fbr (register # rest) st
                 = (e2, extend st (ws1 @ ws2) (ms1 @ ms2))"
      by (simp add: 1 2)
    then show ?thesis by blast
  next
    case (Some e)
    then have "\<forall>st. emit_registers fbr (register # rest) st = (Some e, extend st ws1 ms1)"
      by (simp add: 1)
    then show ?thesis by blast
  qed
qed

lemma emit_block_eq:
  "emit_block rbb fbr block st =
     (case block_locals block of
        Inl e \<Rightarrow> (Some e, st)
      | Inr v \<Rightarrow>
          if \<not> in_groups (block_name v) rbb
          then (None, extend st (block_header v @ [block_no_registers, block_close])
                        [ProcessingBlock (block_name v), NoRegisters (block_name v)])
          else (case emit_registers fbr (iterrows (get_group rbb (block_name v)))
                       (extend st (block_header v) [ProcessingBlock (block_name v)]) of
                  (Some e, st2) \<Rightarrow> (Some e, st2)
                | (None, st2) \<Rightarrow> (None, extend st2 [block_close] [])))"
  unfolding emit_block_def Let_def foldl_f_write print_extend
  by (simp add: f_write_extend split: sum.split prod.split option.split)

lemma emit_block_uniform:
  "\<exists>err ws ms. \<forall>st. emit_block rbb fbr block st = (err, extend st ws ms)"
proof (cases "block_locals block")
  case (Inl e)
  then have "\<forall>st. emit_block rbb fbr block st = (Some e, extend st [] [])"
    by (simp add: emit_block_eq)
  then show ?thesis by blast
next
  case (Inr v)
  show ?thesis
  proof (cases "in_groups (block_name v) rbb")
    case False
    with Inr show ?thesis by (simp add: emit_block_eq) blast
  next
    case True
    obtain e2 ws2 ms2 where
      2: "\<And>st. emit_registers fbr (iterrows (get_group rbb (block_name v))) st
                = (e2, extend st ws2 ms2)"
      using emit_registers_uniform by blast
    show ?thesis
    proof (cases e2)
      case None
      with Inr True 2 show ?thesis by (simp add: emit_block_eq) blast
    next
      case (Some e)
      with Inr True 2 show ?thesis by (simp add: emit_block_eq) blast
    qed
  qed
qed

lemma emit_blocks_uniform:
  "\<exists>err ws ms. \<forall>st. emit_blocks rbb fbr blocks st = (err, extend st ws ms)"
proof (induction blocks)
  case Nil
  have "\<forall>st. emit_blocks rbb fbr [] st = (None, extend st [] [])" by simp
  then show ?case by blast
next
  case (Cons block rest)
  obtain e1 ws1 ms1 where 1: "\<And>st. emit_block rbb fbr block st = (e1, extend st ws1 ms1)"
    using emit_block_uniform by blast
  obtain e2 ws2 ms2 where 2: "\<And>st. emit_blocks rbb fbr rest st = (e2, extend st ws2 ms2)"
    using Cons.IH by blast
  show ?case
  proof (cases e1)
    case None
    then have "\<forall>st. emit_blocks rbb fbr (block # rest) st
                 = (e2, extend st (ws1 @ ws2) (ms1 @ ms2))"
      by (simp add: 1 2)
    then show ?thesis by blast
  next
    case (Some e)
    then have "\<forall>st. emit_blocks rbb fbr (block # rest) st = (Some e, extend st ws1 ms1)"
      by (simp add: 1)
    then show ?thesis by blast
  qed
qed


subsection \<open>A lookup that finds no group\<close>

lemma str_int_32: "str_int 32 = ''32''"
  by (simp add: str_int_def nat_digits.simps [of 10 32] nat_digits.simps [of 10 3] digit_char_def)

text \<open>
  What the script does when its own lookup, under the sanitised name, finds no group: the
  header, the placeholder comment and the closing line are written, nothing is raised, and
  the loop goes on with the next row.
\<close>

lemma placeholder_when_lookup_fails:
  "(block_locals block = Inr bv \<longrightarrow> \<not> in_groups (block_name bv) rbb \<longrightarrow>
      emit_blocks rbb fbr (block # more_blocks) st =
      emit_blocks rbb fbr more_blocks
        (extend st
           [''addrmap '' @ block_name bv @ '' {'' @ nl,
            ''    name = '' @ dq @ block_name bv @ dq @ '';'' @ nl,
            ''    desc = '' @ dq @ block_desc bv @ dq @ '';'' @ nl @ nl,
            ''    // No se encontraron registros para este bloque'' @ nl @ nl,
            ''};'' @ nl @ nl]
           [ProcessingBlock (block_name bv), NoRegisters (block_name bv)]))
   \<and> (reg_locals register = Inr rv \<longrightarrow> \<not> in_groups (reg_name rv) fbr \<longrightarrow>
      emit_registers fbr (register # more_registers) st =
      emit_registers fbr more_registers
        (extend st
           [''    // Registro '' @ reg_name rv @ nl,
            ''    reg {'' @ nl,
            ''        name = '' @ dq @ reg_name rv @ dq @ '';'' @ nl,
            ''        desc = '' @ dq @ reg_desc rv @ dq @ '';'' @ nl,
            ''        regwidth = '' @ str_int (reg_width rv) @ '';'' @ nl @ nl,
            ''        // No se encontraron campos para este registro'' @ nl @ nl,
            ''    } '' @ reg_name rv @ '' @ '' @ reg_offset rv @ '';'' @ nl @ nl]
           [ProcessingRegister (reg_name rv) (reg_offset rv), NoFields (reg_name rv)]))"
  by (simp add: emit_block_eq emit_register_eq block_header_def block_no_registers_def
        block_close_def reg_header_def reg_no_fields_def reg_close_def)

lemma getitem_simps:
  "getitem [] l = Inl (KeyError l)"
  "getitem ((k, c) # r) l = (if k = l then Inr c else getitem r l)"
  by (simp_all add: getitem_def)

lemma ex_block_locals:
  "block_locals ex_block =
     Inr \<lparr>block_name = ''TIMER'', base_address = ''0x3000'', block_desc = ''TIMER Block''\<rparr>"
  by (simp add: block_locals_def ex_block_def getitem_simps sanitize_name_def strip_def is_space_def
        whitespace_def notna_def)

lemma ex_register_locals:
  "reg_locals ex_register =
     Inr \<lparr>reg_name = ''STATUS'', reg_offset = ''0x04'', reg_desc = ''STATUS Register'',
          reg_width = 32\<rparr>"
  by (simp add: reg_locals_def ex_register_def getitem_simps sanitize_name_def strip_def is_space_def
        whitespace_def notna_def)

subsection \<open>Bit range and reset value of a field\<close>

text \<open>
  C3. For a field row with LSB \<open>l \<ge> 0\<close>, width \<open>w \<ge> 1\<close> and reset value \<open>v \<ge> 0\<close>
  (0 when the cell is missing) the conversions succeed, the MSB is \<open>l + w - 1\<close>, and the
  reset literal has exactly \<open>w\<close> characters when \<open>v \<le> 2^w - 1\<close> and more than \<open>w\<close>
  otherwise; it consists of binary digits and denotes \<open>v\<close>, so nothing is truncated.
  The last chunk written for the field carries these values.
\<close>

theorem field_bit_range_and_reset:
  assumes "getitem field ''Field Name'' = Inr c_name"
    and "getitem field ''LSB'' = Inr c_lsb" and "py_int c_lsb = Inr l"
    and "getitem field ''Width'' = Inr c_width" and "py_int c_width = Inr w"
    and "getitem field ''Access'' = Inr c_access"
    and "getitem field ''Reset Value'' = Inr c_reset"
    and "c_reset = NaN \<and> v = 0 \<or> py_int c_reset = Inr v"
    and "getitem field ''Description'' = Inr c_desc"
    and "0 \<le> l" and "1 \<le> w" and "0 \<le> v"
  shows "\<exists>fv. field_locals field = Inr fv \<and> lsb fv = l \<and> width fv = w \<and> reset_value fv = v
           \<and> msb fv = l + w - 1
           \<and> (v \<le> 2 ^ nat w - 1 \<longrightarrow> length (reset_bin fv) = nat w)
           \<and> (v > 2 ^ nat w - 1 \<longrightarrow> length (reset_bin fv) > nat w)
           \<and> set (reset_bin fv) \<subseteq> {CHR ''0'', CHR ''1''} \<and> int (bin_value (reset_bin fv)) = v
           \<and> last (field_text fv) =
               ''        } '' @ field_name fv @ ''['' @ str_int (l + w - 1) @ '':'' @ str_int l
               @ ''] = '' @ str_int w @ [CHR 0x27] @ ''b'' @ reset_bin fv @ '';'' @ nl @ nl"
proof -
  obtain s where s: "format_bin v w = Inr s"
    using assms(11,12) by (simp add: format_bin_def Let_def)
  have r: "(if notna c_reset then py_int c_reset else Inr 0) = Inr v"
    using assms(8) by (auto simp: notna_def)
  let ?fv = "\<lparr>field_name = sanitize_name c_name, lsb = l, width = w, msb = l + w - 1,
              access = strip (py_str c_access), reset_value = v,
              field_desc = (if notna c_desc then strip (py_str c_desc)
                            else sanitize_name c_name @ '' field''),
              sw_access = fst (access_to_rdl (strip (py_str c_access))),
              onwrite = snd (access_to_rdl (strip (py_str c_access))),
              reset_bin = s\<rparr>"
  have loc: "field_locals field = Inr ?fv"
    unfolding field_locals_def by (simp add: assms(1-7,9) r s)
  have len: "(v \<le> 2 ^ nat w - 1 \<longrightarrow> length s = nat w) \<and> (v > 2 ^ nat w - 1 \<longrightarrow> length s > nat w)"
    using format_bin_length [OF assms(12,11) s] .
  have dig: "set s \<subseteq> {CHR ''0'', CHR ''1''} \<and> int (bin_value s) = v"
    using format_bin_digits [OF assms(12) _ s] assms(11) by simp
  have "last (field_text ?fv) =
               ''        } '' @ field_name ?fv @ ''['' @ str_int (l + w - 1) @ '':'' @ str_int l
               @ ''] = '' @ str_int w @ [CHR 0x27] @ ''b'' @ reset_bin ?fv @ '';'' @ nl @ nl"
    by (simp add: field_text_def)
  with loc len dig show ?thesis by (intro exI [of _ ?fv]) simp
qed


theorem field_bit_range_and_reset_witness:
  "\<exists>fv. field_locals ex_field = Inr fv \<and> lsb fv = 4 \<and> width fv = 3 \<and> reset_value fv = 5
      \<and> msb fv = 6 \<and> length (reset_bin fv) = 3 \<and> bin_value (reset_bin fv) = 5"
  using field_bit_range_and_reset [of ex_field "Text ''EN''" "Number 4" 4 "Number 3" 3
      "Text ''w1c''" "Number 5" 5 NaN]
  by (auto simp add: ex_field_def getitem_simps)

subsection \<open>Evaluation on the examples\<close>

lemma bind_eq_Inr: "bind m f = Inr b \<longleftrightarrow> (\<exists>a. m = Inr a \<and> f a = Inr b)"
  by (cases m) simp_all

text \<open>Evaluating the conversion on the example rows.\<close>

lemmas eval_defs =
  emit_register_eq emit_field_eq in_groups_def has_key_def series_def get_group_def
  sort_values_def cell_of_def iterrows_def field_locals_def reg_locals_def block_locals_def
  getitem_def notna_def format_bin_def sanitize_name_def strip_def is_space_def whitespace_def
  access_to_rdl_def access_map_def lower_def lower_char_def upper_chars_def lower_chars_def
  Let_def

lemma nat_digits_small:
  "nat_digits 2 0 = ''0''" "nat_digits 2 1 = ''1''" "nat_digits 2 (Suc 0) = ''1''"
  by (simp_all add: nat_digits.simps [of 2 0] nat_digits.simps [of 2 1]
        nat_digits.simps [of 2 "Suc 0"] digit_char_def)

lemma ex_field_locals:
  "field_locals ex_field =
     Inr \<lparr>field_name = ''EN'', lsb = 4, width = 3, msb = 6, access = ''w1c'', reset_value = 5,
          field_desc = ''EN field'', sw_access = ''w'', onwrite = Some ''woclr'',
          reset_bin = ''101''\<rparr>"
  by (simp add: eval_defs ex_field_def nat_digits.simps [of 2 5] nat_digits.simps [of 2 2]
        nat_digits_small digit_char_def)

subsection \<open>Order of the fields of a register\<close>

lemma emitted_lsbs_append [simp]: "emitted_lsbs (a @ b) = emitted_lsbs a @ emitted_lsbs b"
  by (simp add: emitted_lsbs_def)

lemma emit_fields_ok2:
  "emit_fields frows st = (None, st') \<Longrightarrow>
   \<exists>vs. map field_locals frows = map Inr vs
      \<and> written st' = written st @ concat (map field_text vs)
      \<and> emitted_lsbs (console st') = emitted_lsbs (console st) @ map lsb vs"
proof (induction frows arbitrary: st)
  case Nil
  then show ?case by simp
next
  case (Cons field rest)
  from Cons.prems obtain v where v: "field_locals field = Inr v"
    by (cases "field_locals field") (auto simp: emit_field_eq)
  let ?st1 = "extend st (field_text v)
                [FieldInfo (field_name v) (msb v) (lsb v) (width v) (reset_bin v) (access v)]"
  from Cons.prems v have "emit_fields rest ?st1 = (None, st')"
    by (simp add: emit_field_eq)
  from Cons.IH [OF this] obtain vs where
    vs: "map field_locals rest = map Inr vs"
      "written st' = written ?st1 @ concat (map field_text vs)"
      "emitted_lsbs (console st') = emitted_lsbs (console ?st1) @ map lsb vs"
    by blast
  then have "map field_locals (field # rest) = map Inr (v # vs)
      \<and> written st' = written st @ concat (map field_text (v # vs))
      \<and> emitted_lsbs (console st') = emitted_lsbs (console st) @ map lsb (v # vs)"
    using v by (simp add: emitted_lsbs_def)
  then show ?case by blast
qed

lemma field_locals_lsb:
  "field_locals row = Inr v \<Longrightarrow> \<exists>c. getitem row ''LSB'' = Inr c \<and> py_int c = Inr (lsb v)"
  unfolding field_locals_def bind_eq_Inr by auto

lemma getitem_series:
  "getitem (series t r) label = Inr c \<Longrightarrow> cell_of t label r = c"
  by (auto simp: getitem_def cell_of_def split: option.splits)

lemma lsb_of_numeric_rows:
  "map field_locals (map (series t) rs) = map Inr vs \<Longrightarrow>
   list_all (\<lambda>r. is_number (cell_of t ''LSB'' r)) rs \<Longrightarrow>
   map lsb vs = map (\<lambda>r. number_of (cell_of t ''LSB'' r)) rs"
proof (induction rs arbitrary: vs)
  case Nil
  then show ?case by simp
next
  case (Cons r rs)
  then obtain v vs' where vs: "vs = v # vs'" "field_locals (series t r) = Inr v"
    "map field_locals (map (series t) rs) = map Inr vs'"
    by (cases vs) auto
  from field_locals_lsb [OF vs(2)] obtain c where
    c: "getitem (series t r) ''LSB'' = Inr c" "py_int c = Inr (lsb v)" by blast
  have "cell_of t ''LSB'' r = c" using c(1) by (rule getitem_series)
  moreover have "is_number (cell_of t ''LSB'' r)" using Cons.prems(2) by simp
  ultimately have "lsb v = number_of (cell_of t ''LSB'' r)"
    using c(2) by (cases c) auto
  moreover have "map lsb vs' = map (\<lambda>r. number_of (cell_of t ''LSB'' r)) rs"
    using Cons.IH [OF vs(3)] Cons.prems(2) by simp
  ultimately show ?case by (simp add: vs(1))
qed

lemma is_number_notna: "is_number c \<Longrightarrow> notna c"
  by (cases c) (auto simp: notna_def)

lemma sort_values_numeric:
  assumes "label \<in> set (columns df)"
    and "list_all (\<lambda>r. is_number (cell_of df label r)) (data df)"
  shows "sort_values df label =
           Inr (df\<lparr>data := sort_key (\<lambda>r. number_of (cell_of df label r)) (data df)\<rparr>)"
proof -
  have all: "\<forall>r\<in>set (data df). notna (cell_of df label r)"
    using assms(2) by (auto simp: list_all_iff is_number_notna)
  then have p: "filter (\<lambda>r. notna (cell_of df label r)) (data df) = data df"
    by (simp add: filter_id_conv)
  have m: "filter (\<lambda>r. \<not> notna (cell_of df label r)) (data df) = []"
    using all by (simp add: filter_empty_conv)
  show ?thesis
    unfolding sort_values_def Let_def p m using assms by simp
qed

lemma sort_values_columns:
  "sort_values df label = Inr t \<Longrightarrow> label \<in> set (columns df)"
  by (auto simp: sort_values_def split: if_splits)

lemma cell_of_cong: "columns a = columns b \<Longrightarrow> cell_of a = cell_of b"
  by (auto simp: cell_of_def series_def fun_eq_iff)

lemma series_cong: "columns a = columns b \<Longrightarrow> series a = series b"
  by (auto simp: series_def fun_eq_iff)


text \<open>
  C4, as stated, fails: two fields of one register with the same LSB are both written, one
  after the other, so the LSBs emitted are not strictly ascending.
\<close>

theorem fields_order_counterexample:
  "fst (emit_register \<lparr>frame = ex_dup_fields, key = ''Register Name''\<rparr> ex_register initial) = None
   \<and> emitted_lsbs (console (snd (emit_register \<lparr>frame = ex_dup_fields, key = ''Register Name''\<rparr>
          ex_register initial))) = [0, 0]
   \<and> \<not> sorted_wrt (<) (emitted_lsbs (console (snd
          (emit_register \<lparr>frame = ex_dup_fields, key = ''Register Name''\<rparr> ex_register initial))))"
  by (simp add: eval_defs ex_dup_fields_def ex_register_def nat_digits_small emitted_lsbs_def
        initial_def)


text \<open>
  C4, amended. When the fields of a register have integer LSB cells and the register is
  written without an exception, the fields written are the fields of the register's group,
  whatever their order in the sheet, in ascending (non-decreasing) order of LSB; the order
  is strictly ascending when no two of them have the same LSB.
\<close>

theorem fields_in_lsb_order:
  assumes "reg_locals register = Inr rv"
    and "in_groups (reg_name rv) fbr"
    and "list_all (\<lambda>r. is_number (cell_of (frame fbr) ''LSB'' r))
           (data (get_group fbr (reg_name rv)))"
    and "emit_register fbr register st = (None, st')"
  shows "\<exists>vs. written st' = written st @ reg_header rv @ concat (map field_text vs) @ [reg_close rv]
           \<and> emitted_lsbs (console st') = emitted_lsbs (console st) @ map lsb vs
           \<and> mset (map Inr vs) = mset (map field_locals (iterrows (get_group fbr (reg_name rv))))
           \<and> sorted (map lsb vs)
           \<and> (distinct (map lsb vs) \<longrightarrow> sorted_wrt (<) (map lsb vs))"
proof -
  let ?g = "get_group fbr (reg_name rv)"
  let ?k = "\<lambda>r. number_of (cell_of ?g ''LSB'' r)"
  let ?st1 = "extend st (reg_header rv) [ProcessingRegister (reg_name rv) (reg_offset rv)]"
  have cols: "columns ?g = columns (frame fbr)" by (simp add: get_group_def)
  have num: "list_all (\<lambda>r. is_number (cell_of ?g ''LSB'' r)) (data ?g)"
    using assms(3) cell_of_cong [OF cols] by simp
  obtain t where t: "sort_values ?g ''LSB'' = Inr t"
    using assms(1,2,4) by (cases "sort_values ?g ''LSB''") (auto simp: emit_register_eq)
  have t_eq: "t = ?g\<lparr>data := sort_key ?k (data ?g)\<rparr>"
    using sort_values_numeric [OF sort_values_columns [OF t] num] t by simp
  obtain st2 where st2: "emit_fields (iterrows t) ?st1 = (None, st2)"
    and st': "st' = extend st2 [reg_close rv] []"
    using assms(1,2,4) t
    by (cases "emit_fields (iterrows t) ?st1") (auto simp: emit_register_eq split: option.splits)
  from emit_fields_ok2 [OF st2] obtain vs where
    vs: "map field_locals (iterrows t) = map Inr vs"
      "written st2 = written ?st1 @ concat (map field_text vs)"
      "emitted_lsbs (console st2) = emitted_lsbs (console ?st1) @ map lsb vs"
    by blast
  have tcols: "columns t = columns ?g" by (simp add: t_eq)
  have it: "iterrows t = map (series ?g) (sort_key ?k (data ?g))"
    by (simp add: iterrows_def t_eq series_def)
  have num': "list_all (\<lambda>r. is_number (cell_of ?g ''LSB'' r)) (sort_key ?k (data ?g))"
    using num by (simp add: list_all_iff)
  have lsbs: "map lsb vs = map ?k (sort_key ?k (data ?g))"
    using lsb_of_numeric_rows [OF vs(1) [unfolded it] num'] .
  have srt: "sorted (map lsb vs)" unfolding lsbs by (rule sorted_sort_key)
  have "mset (map Inr vs) = mset (map field_locals (map (series ?g) (sort_key ?k (data ?g))))"
    using vs(1) it by simp
  also have "\<dots> = mset (map field_locals (iterrows ?g))"
    by (simp add: iterrows_def)
  finally have perm: "mset (map Inr vs) = mset (map field_locals (iterrows ?g))" .
  have w: "written st' = written st @ reg_header rv @ concat (map field_text vs) @ [reg_close rv]"
    by (simp add: st' vs(2))
  have c: "emitted_lsbs (console st') = emitted_lsbs (console st) @ map lsb vs"
    using vs(3) by (simp add: st' emitted_lsbs_def)
  have strict: "distinct (map lsb vs) \<longrightarrow> sorted_wrt (<) (map lsb vs)"
    using srt by (simp add: strict_sorted_iff)
  from w c perm srt strict show ?thesis by blast
qed

lemma ex_sorted_eval:
  "emit_register \<lparr>frame = ex_sorted_fields, key = ''Register Name''\<rparr> ex_register initial =
     (None, snd (emit_register \<lparr>frame = ex_sorted_fields, key = ''Register Name''\<rparr>
                   ex_register initial))"
  by (simp add: eval_defs ex_sorted_fields_def ex_register_def nat_digits_small initial_def)

theorem fields_in_lsb_order_witness:
  "\<exists>vs. emitted_lsbs (console (snd (emit_register
            \<lparr>frame = ex_sorted_fields, key = ''Register Name''\<rparr> ex_register initial))) = map lsb vs
      \<and> mset (map Inr vs) =
          mset (map field_locals
                 (iterrows (get_group \<lparr>frame = ex_sorted_fields, key = ''Register Name''\<rparr> ''STATUS'')))
      \<and> sorted (map lsb vs)"
proof -
  have g: "in_groups (reg_name \<lparr>reg_name = ''STATUS'', reg_offset = ''0x04'',
               reg_desc = ''STATUS Register'', reg_width = 32\<rparr>)
             \<lparr>frame = ex_sorted_fields, key = ''Register Name''\<rparr>"
    by (simp add: in_groups_def has_key_def series_def ex_sorted_fields_def)
  have n: "list_all (\<lambda>r. is_number (cell_of (frame \<lparr>frame = ex_sorted_fields, key = ''Register Name''\<rparr>) ''LSB'' r))
             (data (get_group \<lparr>frame = ex_sorted_fields, key = ''Register Name''\<rparr>
                (reg_name \<lparr>reg_name = ''STATUS'', reg_offset = ''0x04'',
                   reg_desc = ''STATUS Register'', reg_width = 32\<rparr>)))"
    by (simp add: get_group_def has_key_def series_def cell_of_def ex_sorted_fields_def)
  from fields_in_lsb_order [OF ex_register_locals g n ex_sorted_eval]
  show ?thesis by (auto simp: initial_def emitted_lsbs_def)
qed

subsection \<open>The except clauses only print\<close>

lemma written_report [simp]:
  "written (report f e st) = written st" "opened (report f e st) = opened st"
  by (cases e; simp add: print_extend)+

lemma report_extend:
  "report f e st = extend st []
     (case e of FileNotFoundError \<Rightarrow> [NotFound f] | KeyError k \<Rightarrow> [MissingKey k]
      | ValueError \<Rightarrow> [Failed e, Traceback] | TypeError \<Rightarrow> [Failed e, Traceback]
      | OtherError m \<Rightarrow> [Failed e, Traceback])"
  by (cases e) (simp_all add: print_extend)

subsection \<open>Exit codes and failure reports\<close>

text \<open>
  C6. Without an input path the script prints the usage and exits with code 1. With one,
  the exit code is 0 whatever happens: when the body of the \<^verbatim>\<open>try\<close> ends in an exception
  the matching failure report is printed, nothing is written after the point of the
  exception, and the script ends normally. A workbook that is not found and a Registers
  sheet without its \<open>Block Name\<close> column are spelled out.
\<close>

theorem exit_codes:
  "(length argv < 2 \<longrightarrow> main world argv = (1, extend initial [] [Banner, Title, Banner, Usage]))
   \<and> (2 \<le> length argv \<longrightarrow> fst (main world argv) = 0)
   \<and> (2 \<le> length argv \<longrightarrow>
        try_body world (argv ! 1)
          (if 2 < length argv then argv ! 2 else ''generated_registers.rdl'')
          (extend initial [] [Banner, Title, Banner]) = (Some e, st') \<longrightarrow>
        main world argv =
          (0, extend st' []
                ((case e of FileNotFoundError \<Rightarrow> [NotFound (argv ! 1)]
                  | KeyError k \<Rightarrow> [MissingKey k]
                  | ValueError \<Rightarrow> [Failed e, Traceback]
                  | TypeError \<Rightarrow> [Failed e, Traceback]
                  | OtherError m \<Rightarrow> [Failed e, Traceback]) @ [Banner])))
   \<and> (2 \<le> length argv \<longrightarrow> read_excel world (argv ! 1) ''Blocks'' = Inl FileNotFoundError \<longrightarrow>
        main world argv =
          (0, extend initial []
                [Banner, Title, Banner, Reading (argv ! 1), NotFound (argv ! 1), Banner]))
   \<and> (2 \<le> length argv \<longrightarrow> load_tables world (argv ! 1) = Inr (b, r, fl) \<longrightarrow>
        ''Block Name'' \<notin> set (columns r) \<longrightarrow>
        main world argv =
          (0, extend initial []
                [Banner, Title, Banner, Reading (argv ! 1),
                 Found (length (data b)) (length (data r)) (length (data fl)),
                 MissingKey ''Block Name'', Banner]))"
proof -
  define f where "f = argv ! 1"
  define out where "out = (if 2 < length argv then argv ! 2 else ''generated_registers.rdl'')"
  define st0 where "st0 = extend initial [] [Banner, Title, Banner]"
  have usage: "length argv < 2 \<longrightarrow>
      main world argv = (1, extend initial [] [Banner, Title, Banner, Usage])"
    by (simp add: main_def Let_def print_extend)
  have run: "main world argv = (0, extend (generate_rdl_from_excel world f out st0) [] [Banner])"
    if "2 \<le> length argv"
    using that unfolding main_def Let_def print_extend f_def out_def st0_def
    by (simp del: One_nat_def)
  have failed: "main world argv =
          (0, extend st' []
                ((case e of FileNotFoundError \<Rightarrow> [NotFound f]
                  | KeyError k \<Rightarrow> [MissingKey k]
                  | ValueError \<Rightarrow> [Failed e, Traceback]
                  | TypeError \<Rightarrow> [Failed e, Traceback]
                  | OtherError m \<Rightarrow> [Failed e, Traceback]) @ [Banner]))"
    if "2 \<le> length argv" "try_body world f out st0 = (Some e, st')" for e st'
    using that by (simp add: run generate_rdl_from_excel_def report_extend)
  have nofile: "main world argv =
          (0, extend initial [] [Banner, Title, Banner, Reading f, NotFound f, Banner])"
    if "2 \<le> length argv" "read_excel world f ''Blocks'' = Inl FileNotFoundError"
  proof -
    have "try_body world f out st0 = (Some FileNotFoundError, extend st0 [] [Reading f])"
      using that(2) by (simp add: try_body_def load_tables_def load_sheet_def print_extend)
    from failed [OF that(1) this] show ?thesis by (simp add: st0_def)
  qed
  have nocol: "main world argv =
          (0, extend initial []
                [Banner, Title, Banner, Reading f,
                 Found (length (data b)) (length (data r)) (length (data f')),
                 MissingKey ''Block Name'', Banner])"
    if "2 \<le> length argv" "load_tables world f = Inr (b, r, f')"
      "''Block Name'' \<notin> set (columns r)" for f'
  proof -
    have "try_body world f out st0 =
            (Some (KeyError ''Block Name''),
             extend st0 [] [Reading f, Found (length (data b)) (length (data r)) (length (data f'))])"
      using that(2,3) by (simp add: try_body_def make_groups_def groupby_def print_extend)
    from failed [OF that(1) this] show ?thesis by (simp add: st0_def)
  qed
  from usage run failed nofile nocol show ?thesis
    unfolding f_def out_def st0_def by (intro conjI impI) simp_all
qed


theorem exit_codes_witness:
  "main ex_no_file [''parseo_excel.py''] = (1, extend initial [] [Banner, Title, Banner, Usage])
   \<and> main ex_no_file [''parseo_excel.py'', ''regs.xlsx''] =
       (0, extend initial []
             [Banner, Title, Banner, Reading ''regs.xlsx'', NotFound ''regs.xlsx'', Banner])"
  using exit_codes [of "[''parseo_excel.py'']" ex_no_file]
    exit_codes [of "[''parseo_excel.py'', ''regs.xlsx'']" ex_no_file]
  by (simp add: ex_no_file_def)

subsection \<open>Grouping by name\<close>

lemma ex_spaced_tables:
  "load_tables ex_spaced ''regs.xlsx'' = Inr (ex_spaced_blocks, ex_spaced_registers, ex_spaced_fields)"
  by (simp add: load_tables_def load_sheet_def ex_spaced_def strip_columns_def strip_def
        is_space_def whitespace_def ex_spaced_blocks_def ex_spaced_registers_def ex_spaced_fields_def)

lemma ex_spaced_groups:
  "make_groups ex_spaced_registers ex_spaced_fields =
     Inr (\<lparr>frame = ex_spaced_registers, key = ''Block Name''\<rparr>,
          \<lparr>frame = ex_spaced_fields, key = ''Register Name''\<rparr>)"
  by (simp add: make_groups_def groupby_def ex_spaced_registers_def ex_spaced_fields_def)

lemma ex_spaced_emit:
  "emit_blocks \<lparr>frame = ex_spaced_registers, key = ''Block Name''\<rparr>
       \<lparr>frame = ex_spaced_fields, key = ''Register Name''\<rparr> (iterrows ex_spaced_blocks) st =
     (None, extend st
        [''addrmap UART {'' @ nl,
         ''    name = '' @ dq @ ''UART'' @ dq @ '';'' @ nl,
         ''    desc = '' @ dq @ ''UART Block'' @ dq @ '';'' @ nl @ nl,
         ''    // Registro CTRL_REG'' @ nl,
         ''    reg {'' @ nl,
         ''        name = '' @ dq @ ''CTRL_REG'' @ dq @ '';'' @ nl,
         ''        desc = '' @ dq @ ''CTRL_REG Register'' @ dq @ '';'' @ nl,
         ''        regwidth = 32;'' @ nl @ nl,
         ''        // No se encontraron campos para este registro'' @ nl @ nl,
         ''    } CTRL_REG @ 0x00;'' @ nl @ nl,
         ''};'' @ nl @ nl,
         ''addrmap GPIO_0 {'' @ nl,
         ''    name = '' @ dq @ ''GPIO_0'' @ dq @ '';'' @ nl,
         ''    desc = '' @ dq @ ''GPIO_0 Block'' @ dq @ '';'' @ nl @ nl,
         ''    // No se encontraron registros para este bloque'' @ nl @ nl,
         ''};'' @ nl @ nl]
        [ProcessingBlock ''UART'', ProcessingRegister ''CTRL_REG'' ''0x00'', NoFields ''CTRL_REG'',
         ProcessingBlock ''GPIO_0'', NoRegisters ''GPIO_0''])"
  by (simp add: eval_defs emit_block_eq ex_spaced_blocks_def ex_spaced_registers_def
        ex_spaced_fields_def block_header_def block_no_registers_def block_close_def
        reg_header_def reg_no_fields_def reg_close_def str_int_32)

text \<open>
  C1 on a workbook with a block named \<open>GPIO 0\<close> and a register named \<open>CTRL REG\<close>. The
  Registers sheet has a row whose Block Name is \<open>GPIO 0\<close>, and the Fields sheet a row whose
  Register Name is \<open>CTRL REG\<close>; the script looks the groups up under the sanitised names
  \<open>GPIO_0\<close> and \<open>CTRL_REG\<close>, finds neither, and writes the two placeholders: the
  register \<open>DIR\<close> and the field \<open>EN\<close> are not written.
\<close>

theorem grouping_by_sanitized_name:
  "rows_named ex_spaced_registers ''Block Name'' (Text ''GPIO 0'')
     = [[Text ''GPIO 0'', Text ''DIR'', Text ''0x00'', NaN, NaN]]
   \<and> rows_named ex_spaced_fields ''Register Name'' (Text ''CTRL REG'')
     = [[Text ''CTRL REG'', Text ''EN'', Number 0, Number 1, Text ''rw'', Number 0, NaN]]
   \<and> written (generate_rdl_from_excel ex_spaced ''regs.xlsx'' ''out.rdl'' initial) =
        [''addrmap UART {'' @ nl,
         ''    name = '' @ dq @ ''UART'' @ dq @ '';'' @ nl,
         ''    desc = '' @ dq @ ''UART Block'' @ dq @ '';'' @ nl @ nl,
         ''    // Registro CTRL_REG'' @ nl,
         ''    reg {'' @ nl,
         ''        name = '' @ dq @ ''CTRL_REG'' @ dq @ '';'' @ nl,
         ''        desc = '' @ dq @ ''CTRL_REG Register'' @ dq @ '';'' @ nl,
         ''        regwidth = 32;'' @ nl @ nl,
         ''        // No se encontraron campos para este registro'' @ nl @ nl,
         ''    } CTRL_REG @ 0x00;'' @ nl @ nl,
         ''};'' @ nl @ nl,
         ''addrmap GPIO_0 {'' @ nl,
         ''    name = '' @ dq @ ''GPIO_0'' @ dq @ '';'' @ nl,
         ''    desc = '' @ dq @ ''GPIO_0 Block'' @ dq @ '';'' @ nl @ nl,
         ''    // No se encontraron registros para este bloque'' @ nl @ nl,
         ''};'' @ nl @ nl]"
proof -
  have 1: "rows_named ex_spaced_registers ''Block Name'' (Text ''GPIO 0'')
     = [[Text ''GPIO 0'', Text ''DIR'', Text ''0x00'', NaN, NaN]]"
    by (simp add: rows_named_def series_def ex_spaced_registers_def)
  have 2: "rows_named ex_spaced_fields ''Register Name'' (Text ''CTRL REG'')
     = [[Text ''CTRL REG'', Text ''EN'', Number 0, Number 1, Text ''rw'', Number 0, NaN]]"
    by (simp add: rows_named_def series_def ex_spaced_fields_def)
  have o: "open_w ex_spaced ''out.rdl'' = None" by (simp add: ex_spaced_def)
  have 3: "written (generate_rdl_from_excel ex_spaced ''regs.xlsx'' ''out.rdl'' initial) =
        [''addrmap UART {'' @ nl,
         ''    name = '' @ dq @ ''UART'' @ dq @ '';'' @ nl,
         ''    desc = '' @ dq @ ''UART Block'' @ dq @ '';'' @ nl @ nl,
         ''    // Registro CTRL_REG'' @ nl,
         ''    reg {'' @ nl,
         ''        name = '' @ dq @ ''CTRL_REG'' @ dq @ '';'' @ nl,
         ''        desc = '' @ dq @ ''CTRL_REG Register'' @ dq @ '';'' @ nl,
         ''        regwidth = 32;'' @ nl @ nl,
         ''        // No se encontraron campos para este registro'' @ nl @ nl,
         ''    } CTRL_REG @ 0x00;'' @ nl @ nl,
         ''};'' @ nl @ nl,
         ''addrmap GPIO_0 {'' @ nl,
         ''    name = '' @ dq @ ''GPIO_0'' @ dq @ '';'' @ nl,
         ''    desc = '' @ dq @ ''GPIO_0 Block'' @ dq @ '';'' @ nl @ nl,
         ''    // No se encontraron registros para este bloque'' @ nl @ nl,
         ''};'' @ nl @ nl]"
    unfolding generate_rdl_from_excel_def try_body_def ex_spaced_tables
    by (simp add: ex_spaced_groups o ex_spaced_emit print_extend open_output_def)
  from 1 2 3 show ?thesis by blast
qed

subsection \<open>Runs that reach a register\<close>


lemma getitem_absent: "map_of r label = None \<Longrightarrow> getitem r label = Inl (KeyError label)"
  by (simp add: getitem_def)



text \<open>The header of a register is written whatever happens to its fields.\<close>

lemma emit_register_header:
  assumes "reg_locals register = Inr rv"
  shows "\<exists>err ws ms. \<forall>st. emit_register fbr register st = (err, extend st (reg_header rv @ ws) ms)"
proof (cases "in_groups (reg_name rv) fbr")
  case False
  with assms have "\<forall>st. emit_register fbr register st =
      (None, extend st (reg_header rv @ [reg_no_fields, reg_close rv])
               [ProcessingRegister (reg_name rv) (reg_offset rv), NoFields (reg_name rv)])"
    by (simp add: emit_register_eq)
  then show ?thesis by blast
next
  case True
  show ?thesis
  proof (cases "sort_values (get_group fbr (reg_name rv)) ''LSB''")
    case (Inl e)
    with assms True have "\<forall>st. emit_register fbr register st =
        (Some e, extend st (reg_header rv @ []) [ProcessingRegister (reg_name rv) (reg_offset rv)])"
      by (simp add: emit_register_eq)
    then show ?thesis by blast
  next
    case (Inr t)
    obtain e2 ws2 ms2 where 2: "\<And>st. emit_fields (iterrows t) st = (e2, extend st ws2 ms2)"
      using emit_fields_uniform by blast
    show ?thesis
    proof (cases e2)
      case None
      with assms True Inr 2 have "\<forall>st. emit_register fbr register st =
          (None, extend st (reg_header rv @ (ws2 @ [reg_close rv]))
                   (ProcessingRegister (reg_name rv) (reg_offset rv) # ms2))"
        by (simp add: emit_register_eq)
      then show ?thesis by blast
    next
      case (Some e)
      with assms True Inr 2 have "\<forall>st. emit_register fbr register st =
          (Some e, extend st (reg_header rv @ ws2)
                     (ProcessingRegister (reg_name rv) (reg_offset rv) # ms2))"
        by (simp add: emit_register_eq)
      then show ?thesis by blast
    qed
  qed
qed

text \<open>The header of a block is written whatever happens to its registers.\<close>

lemma emit_block_header:
  assumes "block_locals block = Inr bv"
  shows "\<exists>err ws ms. \<forall>st. emit_block rbb fbr block st = (err, extend st (block_header bv @ ws) ms)"
proof (cases "in_groups (block_name bv) rbb")
  case False
  with assms have "\<forall>st. emit_block rbb fbr block st =
      (None, extend st (block_header bv @ [block_no_registers, block_close])
               [ProcessingBlock (block_name bv), NoRegisters (block_name bv)])"
    by (simp add: emit_block_eq)
  then show ?thesis by blast
next
  case True
  obtain e2 ws2 ms2 where
    2: "\<And>st. emit_registers fbr (iterrows (get_group rbb (block_name bv))) st
              = (e2, extend st ws2 ms2)"
    using emit_registers_uniform by blast
  show ?thesis
  proof (cases e2)
    case None
    with assms True 2 have "\<forall>st. emit_block rbb fbr block st =
        (None, extend st (block_header bv @ (ws2 @ [block_close]))
                 (ProcessingBlock (block_name bv) # ms2))"
      by (simp add: emit_block_eq)
    then show ?thesis by blast
  next
    case (Some e)
    with assms True 2 have "\<forall>st. emit_block rbb fbr block st =
        (Some e, extend st (block_header bv @ ws2) (ProcessingBlock (block_name bv) # ms2))"
      by (simp add: emit_block_eq)
    then show ?thesis by blast
  qed
qed



subsection \<open>Register width\<close>






subsection \<open>Descriptions\<close>

text \<open>
  C9, as stated, fails when the Description is not present because the sheet has no such
  column: the lookup raises \<^verbatim>\<open>KeyError\<close>, and no description, default or other, is
  written.
\<close>

theorem description_column_absent_counterexample:
  "emit_block \<lparr>frame = ex_registers, key = ''Block Name''\<rparr>
       \<lparr>frame = ex_fields, key = ''Register Name''\<rparr>
       [(''Block Name'', Text ''TIMER''), (''Base Address'', Text ''0x3000''), (''Size'', Number 256)]
       initial
     = (Some (KeyError ''Description''), initial)
   \<and> generate_rdl_from_excel ex_no_desc_world ''regs.xlsx'' ''out.rdl'' initial =
       \<lparr>opened = True, written = [],
        console = [Reading ''regs.xlsx'', Found 1 1 1, MissingKey ''Description'']\<rparr>"
proof -
  have 1: "emit_block \<lparr>frame = ex_registers, key = ''Block Name''\<rparr>
       \<lparr>frame = ex_fields, key = ''Register Name''\<rparr>
       [(''Block Name'', Text ''TIMER''), (''Base Address'', Text ''0x3000''), (''Size'', Number 256)]
       st
     = (Some (KeyError ''Description''), st)" for st
    by (simp add: emit_block_eq block_locals_def getitem_simps)
  have l: "load_tables ex_no_desc_world ''regs.xlsx'' = Inr (ex_no_desc_blocks, ex_registers, ex_fields)"
    by (simp add: load_tables_def load_sheet_def ex_no_desc_world_def strip_columns_def strip_def
        is_space_def whitespace_def ex_no_desc_blocks_def ex_registers_def ex_fields_def)
  have g: "make_groups ex_registers ex_fields =
     Inr (\<lparr>frame = ex_registers, key = ''Block Name''\<rparr>,
          \<lparr>frame = ex_fields, key = ''Register Name''\<rparr>)"
    by (simp add: make_groups_def groupby_def ex_registers_def ex_fields_def)
  have o: "open_w ex_no_desc_world ''out.rdl'' = None" by (simp add: ex_no_desc_world_def)
  have n: "length (data ex_no_desc_blocks) = 1" "length (data ex_registers) = 1"
    "length (data ex_fields) = 1"
    by (simp_all add: ex_no_desc_blocks_def ex_registers_def ex_fields_def)
  have i: "iterrows ex_no_desc_blocks =
      [[(''Block Name'', Text ''TIMER''), (''Base Address'', Text ''0x3000''), (''Size'', Number 256)]]"
    by (simp add: iterrows_def series_def ex_no_desc_blocks_def)
  have 2: "generate_rdl_from_excel ex_no_desc_world ''regs.xlsx'' ''out.rdl'' initial =
       \<lparr>opened = True, written = [],
        console = [Reading ''regs.xlsx'', Found 1 1 1, MissingKey ''Description'']\<rparr>"
    unfolding generate_rdl_from_excel_def try_body_def l
    by (simp add: g o n i 1 print_extend open_output_def extend_def initial_def)
  from 1 [of initial] 2 show ?thesis by blast
qed

lemma block_locals_needs_description:
  "map_of block ''Description'' = None \<Longrightarrow> \<exists>e. block_locals block = Inl e"
proof (cases "block_locals block")
  case (Inr v)
  then have "\<exists>c. getitem block ''Description'' = Inr c"
    unfolding block_locals_def bind_eq_Inr by auto
  moreover assume "map_of block ''Description'' = None"
  ultimately show ?thesis by (auto simp: getitem_def)
qed blast

lemma reg_locals_needs_description:
  "map_of register ''Description'' = None \<Longrightarrow> \<exists>e. reg_locals register = Inl e"
proof (cases "reg_locals register")
  case (Inr v)
  then have "\<exists>c. getitem register ''Description'' = Inr c"
    unfolding reg_locals_def bind_eq_Inr by auto
  moreover assume "map_of register ''Description'' = None"
  ultimately show ?thesis by (auto simp: getitem_def)
qed blast

lemma field_locals_needs_description:
  "map_of field ''Description'' = None \<Longrightarrow> \<exists>e. field_locals field = Inl e"
proof (cases "field_locals field")
  case (Inr v)
  then have "\<exists>c. getitem field ''Description'' = Inr c"
    unfolding field_locals_def bind_eq_Inr by auto
  moreover assume "map_of field ''Description'' = None"
  ultimately show ?thesis by (auto simp: getitem_def)
qed blast

text \<open>
  C9, amended. When the Description cell of a row is missing (NaN) the description
  written by the block, the register or the field is the sanitised name followed by
  \<open>Block\<close>, \<open>Register\<close> or \<open>field\<close>; when the cell is present it is the cell as a string,
  stripped. This is the third chunk written for a block and for a field, the fourth for a
  register, whatever follows. When the row has no Description column an exception ends
  the row before anything of it is written: \<^verbatim>\<open>KeyError\<close> for \<open>Description\<close>, when the
  lookups and conversions that come before it in the row succeed.
\<close>

theorem default_descriptions:
  "(getitem block ''Block Name'' = Inr b_name \<longrightarrow> getitem block ''Base Address'' = Inr b_base \<longrightarrow>
    getitem block ''Description'' = Inr b_desc \<longrightarrow>
      (\<exists>err ws ms. emit_block rbb fbr block st =
         (err, extend st
            ([''addrmap '' @ sanitize_name b_name @ '' {'' @ nl,
              ''    name = '' @ dq @ sanitize_name b_name @ dq @ '';'' @ nl,
              ''    desc = '' @ dq
                @ (if b_desc = NaN then sanitize_name b_name @ '' Block'' else strip (py_str b_desc))
                @ dq @ '';'' @ nl @ nl] @ ws) ms)))
   \<and> (getitem register ''Register Name'' = Inr r_name \<longrightarrow> getitem register ''Offset'' = Inr r_offset \<longrightarrow>
      getitem register ''Description'' = Inr r_desc \<longrightarrow>
      getitem register ''Width (bits)'' = Inr r_width \<longrightarrow>
      (r_width = NaN \<and> n = 32 \<or> py_int r_width = Inr n) \<longrightarrow>
      (\<exists>err ws ms. emit_register fbr register st =
         (err, extend st
            ([''    // Registro '' @ sanitize_name r_name @ nl,
              ''    reg {'' @ nl,
              ''        name = '' @ dq @ sanitize_name r_name @ dq @ '';'' @ nl,
              ''        desc = '' @ dq
                @ (if r_desc = NaN then sanitize_name r_name @ '' Register''
                   else strip (py_str r_desc))
                @ dq @ '';'' @ nl] @ ws) ms)))
   \<and> (getitem field ''Field Name'' = Inr f_name \<longrightarrow>
      getitem field ''LSB'' = Inr f_lsb \<longrightarrow> py_int f_lsb = Inr l \<longrightarrow>
      getitem field ''Width'' = Inr f_width \<longrightarrow> py_int f_width = Inr w \<longrightarrow> 0 \<le> w \<longrightarrow>
      getitem field ''Access'' = Inr f_access \<longrightarrow>
      getitem field ''Reset Value'' = Inr f_reset \<longrightarrow>
      (f_reset = NaN \<and> v = 0 \<or> py_int f_reset = Inr v) \<longrightarrow>
      getitem field ''Description'' = Inr f_desc \<longrightarrow>
      (\<exists>ws ms. emit_field field st =
         (None, extend st
            ([''        field {'' @ nl,
              ''            name = '' @ dq @ sanitize_name f_name @ dq @ '';'' @ nl,
              ''            desc = '' @ dq
                @ (if f_desc = NaN then sanitize_name f_name @ '' field''
                   else strip (py_str f_desc))
                @ dq @ '';'' @ nl] @ ws) ms)))
   \<and> (map_of block ''Description'' = None \<longrightarrow>
        (\<exists>e. emit_block rbb fbr block st = (Some e, st))
        \<and> (getitem block ''Block Name'' = Inr b_name \<longrightarrow>
             getitem block ''Base Address'' = Inr b_base \<longrightarrow>
             emit_block rbb fbr block st = (Some (KeyError ''Description''), st)))
   \<and> (map_of register ''Description'' = None \<longrightarrow>
        (\<exists>e. emit_register fbr register st = (Some e, st))
        \<and> (getitem register ''Register Name'' = Inr r_name \<longrightarrow>
             getitem register ''Offset'' = Inr r_offset \<longrightarrow>
             emit_register fbr register st = (Some (KeyError ''Description''), st)))
   \<and> (map_of field ''Description'' = None \<longrightarrow>
        (\<exists>e. emit_field field st = (Some e, st))
        \<and> (getitem field ''Field Name'' = Inr f_name \<longrightarrow>
             getitem field ''LSB'' = Inr f_lsb \<longrightarrow> py_int f_lsb = Inr l \<longrightarrow>
             getitem field ''Width'' = Inr f_width \<longrightarrow> py_int f_width = Inr w \<longrightarrow>
             getitem field ''Access'' = Inr f_access \<longrightarrow>
             getitem field ''Reset Value'' = Inr f_reset \<longrightarrow>
             (f_reset = NaN \<and> v = 0 \<or> py_int f_reset = Inr v) \<longrightarrow>
             emit_field field st = (Some (KeyError ''Description''), st)))"
proof (intro conjI impI)
  assume c: "getitem block ''Block Name'' = Inr b_name" "getitem block ''Base Address'' = Inr b_base"
    "getitem block ''Description'' = Inr b_desc"
  let ?bv = "\<lparr>block_name = sanitize_name b_name, base_address = strip (py_str b_base),
               block_desc = (if notna b_desc then strip (py_str b_desc)
                             else sanitize_name b_name @ '' Block'')\<rparr>"
  have "block_locals block = Inr ?bv" using c by (simp add: block_locals_def)
  from emit_block_header [OF this, of rbb fbr] obtain err ws ms where
    "emit_block rbb fbr block st = (err, extend st (block_header ?bv @ ws) ms)" by blast
  then have "emit_block rbb fbr block st =
         (err, extend st
            ([''addrmap '' @ sanitize_name b_name @ '' {'' @ nl,
              ''    name = '' @ dq @ sanitize_name b_name @ dq @ '';'' @ nl,
              ''    desc = '' @ dq
                @ (if b_desc = NaN then sanitize_name b_name @ '' Block'' else strip (py_str b_desc))
                @ dq @ '';'' @ nl @ nl] @ ws) ms)"
    by (simp add: block_header_def notna_def)
  then show "\<exists>err ws ms. emit_block rbb fbr block st =
         (err, extend st
            ([''addrmap '' @ sanitize_name b_name @ '' {'' @ nl,
              ''    name = '' @ dq @ sanitize_name b_name @ dq @ '';'' @ nl,
              ''    desc = '' @ dq
                @ (if b_desc = NaN then sanitize_name b_name @ '' Block'' else strip (py_str b_desc))
                @ dq @ '';'' @ nl @ nl] @ ws) ms)" by blast
next
  assume c: "getitem register ''Register Name'' = Inr r_name"
    "getitem register ''Offset'' = Inr r_offset" "getitem register ''Description'' = Inr r_desc"
    "getitem register ''Width (bits)'' = Inr r_width"
    "r_width = NaN \<and> n = 32 \<or> py_int r_width = Inr n"
  let ?rv = "\<lparr>reg_name = sanitize_name r_name, reg_offset = strip (py_str r_offset),
               reg_desc = (if notna r_desc then strip (py_str r_desc)
                           else sanitize_name r_name @ '' Register''),
               reg_width = n\<rparr>"
  have "(if notna r_width then py_int r_width else Inr 32) = Inr n"
    using c(5) by (auto simp: notna_def)
  then have "reg_locals register = Inr ?rv" using c(1-4) by (simp add: reg_locals_def)
  from emit_register_header [OF this, of fbr] obtain err ws ms where
    "emit_register fbr register st = (err, extend st (reg_header ?rv @ ws) ms)" by blast
  then have "emit_register fbr register st =
         (err, extend st
            ([''    // Registro '' @ sanitize_name r_name @ nl,
              ''    reg {'' @ nl,
              ''        name = '' @ dq @ sanitize_name r_name @ dq @ '';'' @ nl,
              ''        desc = '' @ dq
                @ (if r_desc = NaN then sanitize_name r_name @ '' Register''
                   else strip (py_str r_desc))
                @ dq @ '';'' @ nl]
             @ ((''        regwidth = '' @ str_int n @ '';'' @ nl @ nl) # ws)) ms)"
    by (simp add: reg_header_def notna_def)
  then show "\<exists>err ws ms. emit_register fbr register st =
         (err, extend st
            ([''    // Registro '' @ sanitize_name r_name @ nl,
              ''    reg {'' @ nl,
              ''        name = '' @ dq @ sanitize_name r_name @ dq @ '';'' @ nl,
              ''        desc = '' @ dq
                @ (if r_desc = NaN then sanitize_name r_name @ '' Register''
                   else strip (py_str r_desc))
                @ dq @ '';'' @ nl] @ ws) ms)" by blast
next
  assume c: "getitem field ''Field Name'' = Inr f_name"
    "getitem field ''LSB'' = Inr f_lsb" "py_int f_lsb = Inr l"
    "getitem field ''Width'' = Inr f_width" "py_int f_width = Inr w" "0 \<le> w"
    "getitem field ''Access'' = Inr f_access" "getitem field ''Reset Value'' = Inr f_reset"
    "f_reset = NaN \<and> v = 0 \<or> py_int f_reset = Inr v"
    "getitem field ''Description'' = Inr f_desc"
  obtain s where s: "format_bin v w = Inr s"
    using c(6) by (simp add: format_bin_def Let_def)
  have r: "(if notna f_reset then py_int f_reset else Inr 0) = Inr v"
    using c(9) by (auto simp: notna_def)
  let ?fv = "\<lparr>field_name = sanitize_name f_name, lsb = l, width = w, msb = l + w - 1,
              access = strip (py_str f_access), reset_value = v,
              field_desc = (if notna f_desc then strip (py_str f_desc)
                            else sanitize_name f_name @ '' field''),
              sw_access = fst (access_to_rdl (strip (py_str f_access))),
              onwrite = snd (access_to_rdl (strip (py_str f_access))),
              reset_bin = s\<rparr>"
  have "field_locals field = Inr ?fv"
    unfolding field_locals_def by (simp add: c(1-5,7,8,10) r s)
  then have "emit_field field st =
      (None, extend st (field_text ?fv)
         [FieldInfo (field_name ?fv) (msb ?fv) (lsb ?fv) (width ?fv) (reset_bin ?fv) (access ?fv)])"
    by (simp add: emit_field_eq)
  moreover have "\<exists>ws. field_text ?fv =
            [''        field {'' @ nl,
              ''            name = '' @ dq @ sanitize_name f_name @ dq @ '';'' @ nl,
              ''            desc = '' @ dq
                @ (if f_desc = NaN then sanitize_name f_name @ '' field''
                   else strip (py_str f_desc))
                @ dq @ '';'' @ nl] @ ws"
    by (simp add: field_text_def notna_def)
  ultimately show "\<exists>ws ms. emit_field field st =
         (None, extend st
            ([''        field {'' @ nl,
              ''            name = '' @ dq @ sanitize_name f_name @ dq @ '';'' @ nl,
              ''            desc = '' @ dq
                @ (if f_desc = NaN then sanitize_name f_name @ '' field''
                   else strip (py_str f_desc))
                @ dq @ '';'' @ nl] @ ws) ms)"
    by metis
next
  assume "map_of block ''Description'' = None"
  from block_locals_needs_description [OF this]
  show "\<exists>e. emit_block rbb fbr block st = (Some e, st)"
    by (auto simp: emit_block_eq)
next
  assume "map_of block ''Description'' = None" "getitem block ''Block Name'' = Inr b_name"
    "getitem block ''Base Address'' = Inr b_base"
  then have "block_locals block = Inl (KeyError ''Description'')"
    by (simp add: block_locals_def getitem_absent)
  then show "emit_block rbb fbr block st = (Some (KeyError ''Description''), st)"
    by (simp add: emit_block_eq)
next
  assume "map_of register ''Description'' = None"
  from reg_locals_needs_description [OF this]
  show "\<exists>e. emit_register fbr register st = (Some e, st)"
    by (auto simp: emit_register_eq)
next
  assume "map_of register ''Description'' = None" "getitem register ''Register Name'' = Inr r_name"
    "getitem register ''Offset'' = Inr r_offset"
  then have "reg_locals register = Inl (KeyError ''Description'')"
    by (simp add: reg_locals_def getitem_absent)
  then show "emit_register fbr register st = (Some (KeyError ''Description''), st)"
    by (simp add: emit_register_eq)
next
  assume "map_of field ''Description'' = None"
  from field_locals_needs_description [OF this]
  show "\<exists>e. emit_field field st = (Some e, st)"
    by (auto simp: emit_field_eq)
next
  assume c: "map_of field ''Description'' = None" "getitem field ''Field Name'' = Inr f_name"
    "getitem field ''LSB'' = Inr f_lsb" "py_int f_lsb = Inr l"
    "getitem field ''Width'' = Inr f_width" "py_int f_width = Inr w"
    "getitem field ''Access'' = Inr f_access" "getitem field ''Reset Value'' = Inr f_reset"
    "f_reset = NaN \<and> v = 0 \<or> py_int f_reset = Inr v"
  have r: "(if notna f_reset then py_int f_reset else Inr 0) = Inr v"
    using c(9) by (auto simp: notna_def)
  have "field_locals field = Inl (KeyError ''Description'')"
    unfolding field_locals_def by (simp add: c(2-8) r getitem_absent [OF c(1)])
  then show "emit_field field st = (Some (KeyError ''Description''), st)"
    by (simp add: emit_field_eq)
qed

theorem default_descriptions_witness:
  "(\<exists>err ws ms. emit_block \<lparr>frame = ex_registers, key = ''Block Name''\<rparr>
        \<lparr>frame = ex_fields, key = ''Register Name''\<rparr> ex_block initial =
      (err, extend initial
         ([''addrmap TIMER {'' @ nl,
           ''    name = '' @ dq @ ''TIMER'' @ dq @ '';'' @ nl,
           ''    desc = '' @ dq @ ''TIMER Block'' @ dq @ '';'' @ nl @ nl] @ ws) ms))
   \<and> (\<exists>err ws ms. emit_register \<lparr>frame = ex_fields, key = ''Register Name''\<rparr> ex_register initial =
      (err, extend initial
         ([''    // Registro STATUS'' @ nl,
           ''    reg {'' @ nl,
           ''        name = '' @ dq @ ''STATUS'' @ dq @ '';'' @ nl,
           ''        desc = '' @ dq @ ''STATUS Register'' @ dq @ '';'' @ nl] @ ws) ms))
   \<and> (\<exists>ws ms. emit_field ex_field initial =
      (None, extend initial
         ([''        field {'' @ nl,
           ''            name = '' @ dq @ ''EN'' @ dq @ '';'' @ nl,
           ''            desc = '' @ dq @ ''EN field'' @ dq @ '';'' @ nl] @ ws) ms))
   \<and> emit_block \<lparr>frame = ex_registers, key = ''Block Name''\<rparr>
        \<lparr>frame = ex_fields, key = ''Register Name''\<rparr>
        [(''Block Name'', Text ''TIMER''), (''Base Address'', Text ''0x3000''), (''Size'', Number 256)]
        initial = (Some (KeyError ''Description''), initial)"
  using default_descriptions [where block = ex_block and b_name = "Text ''TIMER''"
      and b_base = "Text ''0x3000''" and b_desc = NaN
      and register = ex_register and r_name = "Text ''STATUS''" and r_offset = "Text ''0x04''"
      and r_desc = NaN and r_width = NaN and n = 32
      and field = ex_field and f_name = "Text ''EN''" and f_lsb = "Number 4" and l = 4
      and f_width = "Number 3" and w = 3 and f_access = "Text ''w1c''" and f_reset = "Number 5"
      and v = 5 and f_desc = NaN
      and rbb = "\<lparr>frame = ex_registers, key = ''Block Name''\<rparr>"
      and fbr = "\<lparr>frame = ex_fields, key = ''Register Name''\<rparr>" and st = initial]
    default_descriptions [where block = "[(''Block Name'', Text ''TIMER''),
        (''Base Address'', Text ''0x3000''), (''Size'', Number 256)]"
      and b_name = "Text ''TIMER''" and b_base = "Text ''0x3000''"
      and rbb = "\<lparr>frame = ex_registers, key = ''Block Name''\<rparr>"
      and fbr = "\<lparr>frame = ex_fields, key = ''Register Name''\<rparr>" and st = initial]
  by (simp add: ex_block_def ex_register_def ex_field_def getitem_simps sanitize_name_def strip_def
        is_space_def whitespace_def)

subsection \<open>Rows that match by the sanitised name only\<close>

lemma ex_mismatch_tables:
  "load_tables ex_mismatch ''regs.xlsx''
     = Inr (ex_mismatch_blocks, ex_mismatch_registers, ex_mismatch_fields)"
  by (simp add: load_tables_def load_sheet_def ex_mismatch_def strip_columns_def strip_def
      is_space_def whitespace_def ex_mismatch_blocks_def ex_mismatch_registers_def
      ex_mismatch_fields_def)

lemma ex_mismatch_groups:
  "make_groups ex_mismatch_registers ex_mismatch_fields =
     Inr (\<lparr>frame = ex_mismatch_registers, key = ''Block Name''\<rparr>,
          \<lparr>frame = ex_mismatch_fields, key = ''Register Name''\<rparr>)"
  by (simp add: make_groups_def groupby_def ex_mismatch_registers_def ex_mismatch_fields_def)

lemma str_int_0_1: "str_int 0 = ''0''" "str_int 1 = ''1''"
  by (simp_all add: str_int_def nat_digits.simps [of 10 0] nat_digits.simps [of 10 1]
        nat_digits.simps [of 10 "Suc 0"] digit_char_def)

lemma ex_mismatch_emit:
  "emit_blocks \<lparr>frame = ex_mismatch_registers, key = ''Block Name''\<rparr>
       \<lparr>frame = ex_mismatch_fields, key = ''Register Name''\<rparr> (iterrows ex_mismatch_blocks) st =
     (None, extend st
        [''addrmap GPIO_0 {'' @ nl,
         ''    name = '' @ dq @ ''GPIO_0'' @ dq @ '';'' @ nl,
         ''    desc = '' @ dq @ ''GPIO_0 Block'' @ dq @ '';'' @ nl @ nl,
         ''    // Registro CTRL_REG'' @ nl,
         ''    reg {'' @ nl,
         ''        name = '' @ dq @ ''CTRL_REG'' @ dq @ '';'' @ nl,
         ''        desc = '' @ dq @ ''CTRL_REG Register'' @ dq @ '';'' @ nl,
         ''        regwidth = 32;'' @ nl @ nl,
         ''        field {'' @ nl,
         ''            name = '' @ dq @ ''EN'' @ dq @ '';'' @ nl,
         ''            desc = '' @ dq @ ''EN field'' @ dq @ '';'' @ nl,
         ''            sw = rw;'' @ nl,
         ''            hw = r;'' @ nl,
         ''        } EN[0:0] = 1'' @ [CHR 0x27] @ ''b0;'' @ nl @ nl,
         ''    } CTRL_REG @ 0x00;'' @ nl @ nl,
         ''};'' @ nl @ nl]
        [ProcessingBlock ''GPIO_0'', ProcessingRegister ''CTRL_REG'' ''0x00'',
         FieldInfo ''EN'' 0 0 1 ''0'' ''rw''])"
  by (simp add: eval_defs emit_block_eq ex_mismatch_blocks_def ex_mismatch_registers_def
        ex_mismatch_fields_def block_header_def block_close_def
        reg_header_def reg_close_def field_text_def str_int_32 str_int_0_1 nat_digits_small)

text \<open>
  C5 on a workbook where the block \<open>GPIO 0\<close> has no register row (the only row of the
  Registers sheet names the block \<open>GPIO_0\<close>), and the register \<open>CTRL REG\<close> no field row
  (the only row of the Fields sheet names the register \<open>CTRL_REG\<close>). The script looks the
  groups up under the sanitised names, finds both rows, and writes the register inside the
  block and the field inside the register: neither placeholder is written.
\<close>

theorem placeholder_skipped_on_sanitized_match:
  "rows_named ex_mismatch_registers ''Block Name'' (Text ''GPIO 0'') = []
   \<and> rows_named ex_mismatch_fields ''Register Name'' (Text ''CTRL REG'') = []
   \<and> written (generate_rdl_from_excel ex_mismatch ''regs.xlsx'' ''out.rdl'' initial) =
        [''addrmap GPIO_0 {'' @ nl,
         ''    name = '' @ dq @ ''GPIO_0'' @ dq @ '';'' @ nl,
         ''    desc = '' @ dq @ ''GPIO_0 Block'' @ dq @ '';'' @ nl @ nl,
         ''    // Registro CTRL_REG'' @ nl,
         ''    reg {'' @ nl,
         ''        name = '' @ dq @ ''CTRL_REG'' @ dq @ '';'' @ nl,
         ''        desc = '' @ dq @ ''CTRL_REG Register'' @ dq @ '';'' @ nl,
         ''        regwidth = 32;'' @ nl @ nl,
         ''        field {'' @ nl,
         ''            name = '' @ dq @ ''EN'' @ dq @ '';'' @ nl,
         ''            desc = '' @ dq @ ''EN field'' @ dq @ '';'' @ nl,
         ''            sw = rw;'' @ nl,
         ''            hw = r;'' @ nl,
         ''        } EN[0:0] = 1'' @ [CHR 0x27] @ ''b0;'' @ nl @ nl,
         ''    } CTRL_REG @ 0x00;'' @ nl @ nl,
         ''};'' @ nl @ nl]"
proof -
  have 1: "rows_named ex_mismatch_registers ''Block Name'' (Text ''GPIO 0'') = []"
    by (simp add: rows_named_def series_def ex_mismatch_registers_def)
  have 2: "rows_named ex_mismatch_fields ''Register Name'' (Text ''CTRL REG'') = []"
    by (simp add: rows_named_def series_def ex_mismatch_fields_def)
  have o: "open_w ex_mismatch ''out.rdl'' = None" by (simp add: ex_mismatch_def)
  have 3: "written (generate_rdl_from_excel ex_mismatch ''regs.xlsx'' ''out.rdl'' initial) =
        [''addrmap GPIO_0 {'' @ nl,
         ''    name = '' @ dq @ ''GPIO_0'' @ dq @ '';'' @ nl,
         ''    desc = '' @ dq @ ''GPIO_0 Block'' @ dq @ '';'' @ nl @ nl,
         ''    // Registro CTRL_REG'' @ nl,
         ''    reg {'' @ nl,
         ''        name = '' @ dq @ ''CTRL_REG'' @ dq @ '';'' @ nl,
         ''        desc = '' @ dq @ ''CTRL_REG Register'' @ dq @ '';'' @ nl,
         ''        regwidth = 32;'' @ nl @ nl,
         ''        field {'' @ nl,
         ''            name = '' @ dq @ ''EN'' @ dq @ '';'' @ nl,
         ''            desc = '' @ dq @ ''EN field'' @ dq @ '';'' @ nl,
         ''            sw = rw;'' @ nl,
         ''            hw = r;'' @ nl,
         ''        } EN[0:0] = 1'' @ [CHR 0x27] @ ''b0;'' @ nl @ nl,
         ''    } CTRL_REG @ 0x00;'' @ nl @ nl,
         ''};'' @ nl @ nl]"
    unfolding generate_rdl_from_excel_def try_body_def ex_mismatch_tables
    by (simp add: ex_mismatch_groups o ex_mismatch_emit print_extend open_output_def)
  from 1 2 3 show ?thesis by blast
qed


subsection \<open>The written text depends on the tables only\<close>

text \<open>
  C10. The text written is determined by the three tables. Two runs whose sheets load to
  the same three frames, and whose output files can be opened, end with the same chunks in
  the file, whatever the paths of the workbook and of the output, the other sheets of the
  workbook, and what the console and the output file held before: opening the file
  truncates it. When the frames lack a grouping column neither run opens its file.
\<close>

theorem output_determined_by_tables:
  assumes l1: "load_tables w1 f1 = Inr (b, r, fl)" and l2: "load_tables w2 f2 = Inr (b, r, fl)"
    and o1: "open_w w1 o1 = None" and o2: "open_w w2 o2 = None"
  shows "(\<forall>g. make_groups r fl = Inr g \<longrightarrow>
            opened (generate_rdl_from_excel w1 f1 o1 st1)
          \<and> opened (generate_rdl_from_excel w2 f2 o2 st2)
          \<and> written (generate_rdl_from_excel w1 f1 o1 st1)
              = written (generate_rdl_from_excel w2 f2 o2 st2))
       \<and> (\<forall>e. make_groups r fl = Inl e \<longrightarrow>
            written (generate_rdl_from_excel w1 f1 o1 st1) = written st1
          \<and> opened (generate_rdl_from_excel w1 f1 o1 st1) = opened st1
          \<and> written (generate_rdl_from_excel w2 f2 o2 st2) = written st2
          \<and> opened (generate_rdl_from_excel w2 f2 o2 st2) = opened st2)"
proof (intro conjI allI impI)
  fix g assume g: "make_groups r fl = Inr g"
  obtain rbb fbr where gg: "g = (rbb, fbr)" by (cases g)
  obtain err ws ms where
    u: "\<And>st. emit_blocks rbb fbr (iterrows b) st = (err, extend st ws ms)"
    using emit_blocks_uniform by blast
  have run: "opened (generate_rdl_from_excel w f out st)
      \<and> written (generate_rdl_from_excel w f out st) = ws"
    if "load_tables w f = Inr (b, r, fl)" "open_w w out = None" for w f out st
    using that g gg
    by (cases err)
       (simp_all add: generate_rdl_from_excel_def try_body_def u print_extend open_output_def)
  from run [OF l1 o1, of st1] run [OF l2 o2, of st2]
  show "opened (generate_rdl_from_excel w1 f1 o1 st1)"
    and "opened (generate_rdl_from_excel w2 f2 o2 st2)"
    and "written (generate_rdl_from_excel w1 f1 o1 st1)
          = written (generate_rdl_from_excel w2 f2 o2 st2)"
    by simp_all
next
  fix e assume e: "make_groups r fl = Inl e"
  have run: "written (generate_rdl_from_excel w f out st) = written st
      \<and> opened (generate_rdl_from_excel w f out st) = opened st"
    if "load_tables w f = Inr (b, r, fl)" for w f out st
    using that e by (simp add: generate_rdl_from_excel_def try_body_def print_extend)
  from run [OF l1, of o1 st1] run [OF l2, of o2 st2]
  show "written (generate_rdl_from_excel w1 f1 o1 st1) = written st1"
    and "opened (generate_rdl_from_excel w1 f1 o1 st1) = opened st1"
    and "written (generate_rdl_from_excel w2 f2 o2 st2) = written st2"
    and "opened (generate_rdl_from_excel w2 f2 o2 st2) = opened st2"
    by simp_all
qed

lemma ex_spaced_tables_any:
  "load_tables ex_spaced path = Inr (ex_spaced_blocks, ex_spaced_registers, ex_spaced_fields)"
  by (simp add: load_tables_def load_sheet_def ex_spaced_def strip_columns_def strip_def
        is_space_def whitespace_def ex_spaced_blocks_def ex_spaced_registers_def ex_spaced_fields_def)

theorem output_determined_by_tables_witness:
  "opened (generate_rdl_from_excel ex_spaced ''b.xlsx'' ''b.rdl''
             (extend initial [''stale text''] [Banner]))
   \<and> written (generate_rdl_from_excel ex_spaced ''a.xlsx'' ''a.rdl'' initial)
     = written (generate_rdl_from_excel ex_spaced ''b.xlsx'' ''b.rdl''
                 (extend initial [''stale text''] [Banner]))
   \<and> written (generate_rdl_from_excel ex_spaced ''a.xlsx'' ''a.rdl'' initial) \<noteq> []"
proof -
  have o: "open_w ex_spaced p = None" for p by (simp add: ex_spaced_def)
  note t = output_determined_by_tables [where ?f1.0 = "''a.xlsx''" and ?f2.0 = "''b.xlsx''"
      and ?o1.0 = "''a.rdl''" and ?o2.0 = "''b.rdl''" and ?st1.0 = initial
      and ?st2.0 = "extend initial [''stale text''] [Banner]",
      OF ex_spaced_tables_any ex_spaced_tables_any o o]
  have "written (generate_rdl_from_excel ex_spaced ''a.xlsx'' ''a.rdl'' initial) \<noteq> []"
    unfolding generate_rdl_from_excel_def try_body_def ex_spaced_tables_any
    by (simp add: ex_spaced_groups o ex_spaced_emit print_extend open_output_def)
  with t show ?thesis by (simp add: ex_spaced_groups)
qed

end
